theory Spec2Isabelle
  imports Complex_Main "HOL-Library.Word" "HOL-Library.Monad_Syntax"
begin

section \<open>JavaScript strings\<close>

text \<open>
  A JavaScript string is a sequence of 16-bit code units; \<open>===\<close> on strings compares the
  code units, and the string methods used by \<open>App.tsx\<close> (\<open>includes\<close>, \<open>trim\<close>, \<open>split\<close>)
  work on code units. \<open>lit\<close> turns an ASCII literal of the source into such a string.
\<close>

type_synonym jschar = "16 word"
type_synonym jsstring = "jschar list"

definition lit :: "string \<Rightarrow> jsstring" where
  "lit s = map of_char s"

text \<open>A string is falsy exactly when it is empty (\<open>!s\<close>, \<open>s || d\<close>, \<open>if (s)\<close>).\<close>

definition truthy :: "jsstring \<Rightarrow> bool" where
  "truthy s = (s \<noteq> [])"

definition orElse :: "jsstring \<Rightarrow> jsstring \<Rightarrow> jsstring" where
  "orElse s d = (if truthy s then s else d)"

text \<open>
  \<open>String.prototype.trim\<close> strips the code units of ECMAScript's WhiteSpace and
  LineTerminator productions from both ends.
\<close>

definition isWhiteSpace :: "jschar \<Rightarrow> bool" where
  "isWhiteSpace c =
     (c = 0x0009 \<or> c = 0x000A \<or> c = 0x000B \<or> c = 0x000C \<or> c = 0x000D \<or> c = 0x0020 \<or>
      c = 0x00A0 \<or> c = 0x1680 \<or> (0x2000 \<le> c \<and> c \<le> 0x200A) \<or> c = 0x2028 \<or>
      c = 0x2029 \<or> c = 0x202F \<or> c = 0x205F \<or> c = 0x3000 \<or> c = 0xFEFF)"

definition trim :: "jsstring \<Rightarrow> jsstring" where
  "trim s = rev (dropWhile isWhiteSpace (rev (dropWhile isWhiteSpace s)))"

text \<open>\<open>s.includes(t)\<close>: \<open>t\<close> occurs in \<open>s\<close> as a contiguous run of code units.\<close>

fun startsWith :: "jsstring \<Rightarrow> jsstring \<Rightarrow> bool" where
  "startsWith s [] = True"
| "startsWith [] (d # t) = False"
| "startsWith (c # s) (d # t) = (c = d \<and> startsWith s t)"

fun includesStr :: "jsstring \<Rightarrow> jsstring \<Rightarrow> bool" where
  "includesStr [] t = (t = [])"
| "includesStr (c # s) t = (startsWith (c # s) t \<or> includesStr s t)"

text \<open>
  \<open>s.split(sep)\<close> for a one-unit separator: the pieces between the separators, so the
  empty string gives one empty piece.
\<close>

fun split :: "jschar \<Rightarrow> jsstring \<Rightarrow> jsstring list" where
  "split sep [] = [[]]"
| "split sep (c # s) =
     (if c = sep then [] # split sep s
      else (case split sep s of [] \<Rightarrow> [[c]] | w # ws \<Rightarrow> (c # w) # ws))"

section \<open>Data model\<close>

text \<open>
  The interfaces \<open>Nutrition\<close> and \<open>Recipe\<close>. TypeScript erases them at run time: the fields
  that \<open>generateRecipe\<close> spreads from the parsed response (\<open>...data\<close>) are undefined when
  the response leaves them out, so they are optional here, as \<open>imageUrl\<close> is in the source.
  \<open>recipeId\<close> is the field \<open>id\<close>.
\<close>

record Nutrition =
  calories :: jsstring
  protein :: jsstring
  carbs :: jsstring
  fat :: jsstring

record Recipe =
  recipeId :: jsstring
  title :: jsstring
  description :: "jsstring option"
  ingredients :: "jsstring list option"
  instructions :: "jsstring list option"
  prepTime :: "jsstring option"
  servings :: "jsstring option"
  nutrition :: "Nutrition option"
  imageUrl :: "jsstring option"
  createdAt :: int

datatype view = Kitchen | Pantry | Shopping

text \<open>The state \<open>customDish\<close> of the manual dish modal.\<close>

record CustomDish =
  dishTitle :: jsstring
  desc :: jsstring
  dishIngredients :: jsstring

datatype js_error =
  TypeError | RangeError | SyntaxError | InvalidCharacterError | NotSupportedError |
  IndexSizeError | RequestError | QuotaExceededError

text \<open>
  An \<open>AudioBuffer\<close>: one list of samples per channel. The samples \<open>k / 32768\<close> that
  \<open>decodeAudioData\<close> stores have at most 16 significant bits, so the 32-bit floats of the
  channel hold them exactly and they are modelled as reals.
\<close>

record AudioBuffer =
  numberOfChannels :: nat
  sampleRate :: nat
  channels :: "real list list"

text \<open>
  The \<open>AudioContext\<close> that \<open>decodeAudioData\<close> receives: \<open>ctx.createBuffer(channels,
  length, rate)\<close> is the browser's and may refuse its arguments.
\<close>

record AudioContext =
  createBuffer :: "nat \<Rightarrow> nat \<Rightarrow> nat \<Rightarrow> js_error + AudioBuffer"

text \<open>
  The state of the component \<open>App\<close>: its \<open>useState\<close> cells, the reference
  \<open>audioContextRef\<close>, and what the page does to the outside: the \<open>alert\<close>s shown, the
  speech requests sent, and the audio sources started.
\<close>

record app_state =
  view :: view
  prompt :: jsstring
  isGenerating :: bool
  isVisualizing :: bool
  currentRecipe :: "Recipe option"
  savedRecipes :: "Recipe list"
  manualShoppingItems :: "jsstring list"
  newItemText :: jsstring
  searchQuery :: jsstring
  showAddDishModal :: bool
  customDish :: CustomDish
  isCameraOpen :: bool
  capturedImage :: "jsstring option"
  cookingMode :: "Recipe option"
  currentStep :: int
  isSpeaking :: bool
  audioContextRef :: "AudioContext option"
  alerts :: "jsstring list"
  speechRequests :: "jsstring list"
  started :: "AudioBuffer list"

definition emptyDish :: CustomDish where
  "emptyDish = \<lparr>dishTitle = [], desc = [], dishIngredients = []\<rparr>"

text \<open>The initial values of the \<open>useState\<close> and \<open>useRef\<close> calls.\<close>

definition initial_state :: app_state where
  "initial_state =
     \<lparr>view = Kitchen, prompt = [], isGenerating = False, isVisualizing = False,
      currentRecipe = None, savedRecipes = [], manualShoppingItems = [], newItemText = [],
      searchQuery = [], showAddDishModal = False, customDish = emptyDish,
      isCameraOpen = False, capturedImage = None, cookingMode = None, currentStep = 0,
      isSpeaking = False, audioContextRef = None, alerts = [], speechRequests = [],
      started = []\<rparr>"

section \<open>Recipe store\<close>

text \<open>
  The Heart button of the current recipe:
  \<^verbatim>\<open>if (!savedRecipes.find(r => r.title === currentRecipe.title))
    setSavedRecipes([currentRecipe, ...savedRecipes]);\<close>
  \<open>find\<close> yields a recipe object or undefined, and an object is truthy.
\<close>

definition saveRecipe :: "Recipe \<Rightarrow> app_state \<Rightarrow> app_state" where
  "saveRecipe r st =
     (if find (\<lambda>s. title s = title r) (savedRecipes st) = None
      then st\<lparr>savedRecipes := r # savedRecipes st\<rparr>
      else st)"

text \<open>The Trash button of a pantry card: \<open>setSavedRecipes(s => s.filter(r => r.id !== recipe.id))\<close>.\<close>

definition deleteRecipe :: "jsstring \<Rightarrow> app_state \<Rightarrow> app_state" where
  "deleteRecipe i st = st\<lparr>savedRecipes := filter (\<lambda>r. recipeId r \<noteq> i) (savedRecipes st)\<rparr>"

text \<open>
  \<open>addManualDish\<close>; \<open>uuid\<close> is the value of \<open>crypto.randomUUID()\<close> and \<open>now\<close> that of
  \<open>Date.now()\<close>.
\<close>

definition manualRecipe :: "jsstring \<Rightarrow> int \<Rightarrow> CustomDish \<Rightarrow> Recipe" where
  "manualRecipe uuid now d =
     \<lparr>recipeId = uuid,
      title = dishTitle d @ lit '' (by praj)'',
      description = Some (orElse (desc d) (lit ''A classic homemade dish.'') @ lit '' - Crafted by praj.''),
      ingredients = Some (filter (\<lambda>i. truthy (trim i)) (split 0x000A (dishIngredients d))),
      instructions = Some [lit ''Step-by-step instructions not provided for manual entry.''],
      prepTime = Some (lit ''Manual''),
      servings = Some (lit ''N/A''),
      nutrition = Some \<lparr>calories = lit ''-'', protein = lit ''-'', carbs = lit ''-'', fat = lit ''-''\<rparr>,
      imageUrl = None,
      createdAt = now\<rparr>"

definition addManualDish :: "jsstring \<Rightarrow> int \<Rightarrow> app_state \<Rightarrow> app_state" where
  "addManualDish uuid now st =
     (if \<not> truthy (dishTitle (customDish st)) then st
      else st\<lparr>savedRecipes := manualRecipe uuid now (customDish st) # savedRecipes st,
              customDish := emptyDish,
              showAddDishModal := False\<rparr>)"

text \<open>The shopping list: \<open>addShoppingItem\<close> and the Trash button of the item at index \<open>i\<close>,
  \<open>manualShoppingItems.filter((_, idx) => idx !== i)\<close>.\<close>

definition addShoppingItem :: "app_state \<Rightarrow> app_state" where
  "addShoppingItem st =
     (if \<not> truthy (trim (newItemText st)) then st
      else st\<lparr>manualShoppingItems := manualShoppingItems st @ [trim (newItemText st)],
              newItemText := []\<rparr>)"

definition removeShoppingItem :: "nat \<Rightarrow> app_state \<Rightarrow> app_state" where
  "removeShoppingItem i st =
     st\<lparr>manualShoppingItems :=
          map snd (filter (\<lambda>(idx, item). idx \<noteq> i) (enumerate 0 (manualShoppingItems st)))\<rparr>"

text \<open>The \<open>onChange\<close> handlers of the inputs.\<close>

definition setNewItemText :: "jsstring \<Rightarrow> app_state \<Rightarrow> app_state" where
  "setNewItemText s st = st\<lparr>newItemText := s\<rparr>"

definition setCustomDish :: "CustomDish \<Rightarrow> app_state \<Rightarrow> app_state" where
  "setCustomDish d st = st\<lparr>customDish := d\<rparr>"

definition setPrompt :: "jsstring \<Rightarrow> app_state \<Rightarrow> app_state" where
  "setPrompt s st = st\<lparr>prompt := s\<rparr>"

definition setSearchQuery :: "jsstring \<Rightarrow> app_state \<Rightarrow> app_state" where
  "setSearchQuery s st = st\<lparr>searchQuery := s\<rparr>"

text \<open>A pantry card: \<open>setCurrentRecipe(recipe); setView('kitchen')\<close>.\<close>

definition selectRecipe :: "Recipe \<Rightarrow> app_state \<Rightarrow> app_state" where
  "selectRecipe r st = st\<lparr>currentRecipe := Some r, view := Kitchen\<rparr>"

section \<open>Camera\<close>

text \<open>
  \<open>startCamera\<close>, with \<open>granted\<close> telling whether \<open>getUserMedia\<close> gave a stream, and
  \<open>capturePhoto\<close>, with \<open>photo\<close> the data URL that the canvas gives for the frame.
\<close>

definition startCamera :: "bool \<Rightarrow> app_state \<Rightarrow> app_state" where
  "startCamera granted st =
     (let st1 = st\<lparr>isCameraOpen := True, capturedImage := None\<rparr>
      in if granted then st1
         else st1\<lparr>alerts := alerts st1 @ [lit ''Could not access camera.''], isCameraOpen := False\<rparr>)"

definition capturePhoto :: "jsstring \<Rightarrow> app_state \<Rightarrow> app_state" where
  "capturePhoto photo st = st\<lparr>capturedImage := Some photo\<rparr>"

section \<open>Cooking mode\<close>

text \<open>
  The Play button, \<open>setCookingMode(currentRecipe)\<close>, and the Exit button,
  \<open>setCookingMode(null)\<close>. Neither writes \<open>currentStep\<close>.
\<close>

definition enterCookingMode :: "Recipe \<Rightarrow> app_state \<Rightarrow> app_state" where
  "enterCookingMode r st = st\<lparr>cookingMode := Some r\<rparr>"

definition exitCookingMode :: "app_state \<Rightarrow> app_state" where
  "exitCookingMode st = st\<lparr>cookingMode := None\<rparr>"

text \<open>
  The two chevron buttons of the overlay:
  \<^verbatim>\<open>disabled={currentStep === 0}
  onClick={() => { setCurrentStep(s => s - 1); setIsSpeaking(false); }}\<close>
  \<^verbatim>\<open>disabled={currentStep === cookingMode.instructions.length - 1}
  onClick={() => { setCurrentStep(s => s + 1); setIsSpeaking(false); }}\<close>
\<close>

definition previousDisabled :: "app_state \<Rightarrow> bool" where
  "previousDisabled st = (currentStep st = 0)"

definition nextDisabled :: "jsstring list \<Rightarrow> app_state \<Rightarrow> bool" where
  "nextDisabled steps st = (currentStep st = int (length steps) - 1)"

definition previousStep :: "app_state \<Rightarrow> app_state" where
  "previousStep st = st\<lparr>currentStep := currentStep st - 1, isSpeaking := False\<rparr>"

definition nextStep :: "app_state \<Rightarrow> app_state" where
  "nextStep st = st\<lparr>currentStep := currentStep st + 1, isSpeaking := False\<rparr>"

text \<open>
  A click on a chevron. The overlay is rendered only while \<open>cookingMode\<close> is set, its
  render reads \<open>cookingMode.instructions[currentStep]\<close> and \<open>.length\<close>, which throws when
  the recipe has no \<open>instructions\<close>, and a disabled button receives no click.
\<close>

definition clickPrevious :: "app_state \<Rightarrow> app_state" where
  "clickPrevious st =
     (case cookingMode st of
        None \<Rightarrow> st
      | Some r \<Rightarrow>
          (case instructions r of
             None \<Rightarrow> st
           | Some steps \<Rightarrow> if previousDisabled st then st else previousStep st))"

definition clickNext :: "app_state \<Rightarrow> app_state" where
  "clickNext st =
     (case cookingMode st of
        None \<Rightarrow> st
      | Some r \<Rightarrow>
          (case instructions r of
             None \<Rightarrow> st
           | Some steps \<Rightarrow> if nextDisabled steps st then st else nextStep st))"

section \<open>Recipe generation\<close>

text \<open>
  The value \<open>data\<close> that \<open>JSON.parse\<close> gives for the response text: each field of the
  response schema is there or not, and a field that is there has the type the schema
  declares. A parsed value that is not an object has no field at all. The spread
  \<open>...data\<close> copies every key of \<open>data\<close>, also one the schema does not name:
  \<open>dataImageUrl\<close> is the key \<open>imageUrl\<close>, the one such key that the page reads. The keys
  \<open>id\<close> and \<open>createdAt\<close> of \<open>data\<close> are overwritten, and no code reads any other key.
\<close>

record GenData =
  dataTitle :: "jsstring option"
  dataDescription :: "jsstring option"
  dataPrepTime :: "jsstring option"
  dataServings :: "jsstring option"
  dataNutrition :: "Nutrition option"
  dataIngredients :: "jsstring list option"
  dataInstructions :: "jsstring list option"
  dataImageUrl :: "jsstring option"

text \<open>The part of \<open>generateRecipe\<close> before the request is awaited.\<close>

definition generateRecipe_start :: "app_state \<Rightarrow> app_state" where
  "generateRecipe_start st = st\<lparr>isGenerating := True, currentRecipe := None, isCameraOpen := False\<rparr>"

text \<open>
  \<^verbatim>\<open>const finalTitle = data.title.includes('by praj') ? data.title : `${data.title} (by praj)`;\<close>
\<close>

definition finalTitle :: "jsstring \<Rightarrow> jsstring" where
  "finalTitle t = (if includesStr t (lit ''by praj'') then t else t @ lit '' (by praj)'')"

text \<open>
  \<^verbatim>\<open>{ ...data, title: finalTitle, id: crypto.randomUUID(), createdAt: Date.now() }\<close>;
  reading \<open>includes\<close> of an undefined \<open>data.title\<close> throws a TypeError.
\<close>

definition generatedRecipe :: "jsstring \<Rightarrow> int \<Rightarrow> GenData \<Rightarrow> js_error + Recipe" where
  "generatedRecipe uuid now d =
     (case dataTitle d of
        None \<Rightarrow> Inl TypeError
      | Some t \<Rightarrow>
          Inr \<lparr>recipeId = uuid, title = finalTitle t, description = dataDescription d,
               ingredients = dataIngredients d, instructions = dataInstructions d,
               prepTime = dataPrepTime d, servings = dataServings d,
               nutrition = dataNutrition d, imageUrl = dataImageUrl d, createdAt = now\<rparr>)"

text \<open>\<open>response.text || '{}'\<close>, where \<open>response.text\<close> may be undefined.\<close>

definition responseText :: "jsstring option \<Rightarrow> jsstring" where
  "responseText text = (case text of None \<Rightarrow> lit ''{}'' | Some s \<Rightarrow> orElse s (lit ''{}''))"

text \<open>
  The rest of \<open>generateRecipe\<close>, once the request has settled: \<open>resp\<close> is \<open>Inl\<close> when the
  request threw and the response's \<open>text\<close> otherwise; \<open>parse\<close> is \<open>JSON.parse\<close>. The
  \<open>catch\<close> block alerts, the \<open>finally\<close> block clears the loading flag.
\<close>

definition generateRecipe_settle ::
  "(jsstring \<Rightarrow> js_error + GenData) \<Rightarrow> jsstring \<Rightarrow> int \<Rightarrow> js_error + jsstring option \<Rightarrow>
   app_state \<Rightarrow> app_state" where
  "generateRecipe_settle parse uuid now resp st =
     (let tried =
            (case resp of
               Inl e \<Rightarrow> Inl e
             | Inr text \<Rightarrow>
                 (case parse (responseText text) of
                    Inl e \<Rightarrow> Inl e
                  | Inr d \<Rightarrow> generatedRecipe uuid now d));
          st' =
            (case tried of
               Inl e \<Rightarrow> st\<lparr>alerts := alerts st @ [lit ''Error generating recipe.'']\<rparr>
             | Inr r \<Rightarrow> st\<lparr>currentRecipe := Some r, capturedImage := None\<rparr>)
      in st'\<lparr>isGenerating := False\<rparr>)"

definition generateRecipe ::
  "(jsstring \<Rightarrow> js_error + GenData) \<Rightarrow> jsstring \<Rightarrow> int \<Rightarrow> js_error + jsstring option \<Rightarrow>
   app_state \<Rightarrow> app_state" where
  "generateRecipe parse uuid now resp st =
     generateRecipe_settle parse uuid now resp (generateRecipe_start st)"

text \<open>
  \<open>visualizeRecipe\<close>, before and after its request: \<open>resp\<close> is \<open>Inl\<close> when the request
  threw (there is no \<open>catch\<close>, only \<open>finally\<close>), and otherwise the MIME type and data of
  the first part with inline data, if there is one.
\<close>

definition visualizeRecipe_start :: "app_state \<Rightarrow> app_state" where
  "visualizeRecipe_start st =
     (if currentRecipe st = None then st else st\<lparr>isVisualizing := True\<rparr>)"

definition visualizeRecipe_settle ::
  "js_error + (jsstring \<times> jsstring) option \<Rightarrow> app_state \<Rightarrow> app_state" where
  "visualizeRecipe_settle resp st =
     (let st' =
            (case resp of
               Inl e \<Rightarrow> st
             | Inr None \<Rightarrow> st
             | Inr (Some (mime, payload)) \<Rightarrow>
                 st\<lparr>currentRecipe :=
                      map_option
                        (\<lambda>prev. prev\<lparr>imageUrl := Some (lit ''data:'' @ mime @ lit '';base64,'' @ payload)\<rparr>)
                        (currentRecipe st)\<rparr>)
      in st'\<lparr>isVisualizing := False\<rparr>)"

section \<open>Narration\<close>

text \<open>
  \<open>decodeBase64\<close>: \<open>atob\<close> is the browser's and throws on text that is not base64; storing
  a code unit into a \<open>Uint8Array\<close> keeps its low eight bits.
\<close>

definition decodeBase64 ::
  "(jsstring \<Rightarrow> js_error + jsstring) \<Rightarrow> jsstring \<Rightarrow> js_error + 8 word list" where
  "decodeBase64 atob base64 =
     (case atob base64 of
        Inl e \<Rightarrow> Inl e
      | Inr binaryString \<Rightarrow> Inr (map ucast binaryString))"

text \<open>
  \<open>new Int16Array(data.buffer)\<close>: a view of the bytes as 16-bit signed integers in the
  byte order of the machine, little-endian on the machines a browser runs on; the
  constructor throws a RangeError when the byte length is odd.
\<close>

fun int16Elements :: "8 word list \<Rightarrow> 16 word list" where
  "int16Elements (lo # hi # rest) = word_cat hi lo # int16Elements rest"
| "int16Elements rest = []"

definition int16Array :: "8 word list \<Rightarrow> js_error + 16 word list" where
  "int16Array bytes = (if odd (length bytes) then Inl RangeError else Inr (int16Elements bytes))"

text \<open>
  The loop \<^verbatim>\<open>for (let i = 0; i < dataInt16.length; i++) channelData[i] = dataInt16[i] / 32768.0;\<close>
  from index \<open>i\<close> on. A store beyond the end of a typed array is ignored, as \<open>list_update\<close>
  does.
\<close>

function fillChannel :: "16 word list \<Rightarrow> nat \<Rightarrow> real list \<Rightarrow> real list" where
  "fillChannel dataInt16 i channelData =
     (if i < length dataInt16
      then fillChannel dataInt16 (i + 1) (channelData[i := real_of_int (sint (dataInt16 ! i)) / 32768])
      else channelData)"
  by pat_completeness auto
termination
  by (relation "measure (\<lambda>(dataInt16, i, channelData). length dataInt16 - i)") auto

declare fillChannel.simps [simp del]

text \<open>
  \<open>decodeAudioData\<close>. The bytes \<open>data\<close> are the whole of \<open>data.buffer\<close>, as they are for the
  array that \<open>decodeBase64\<close> makes. \<open>getChannelData(0)\<close> is the first channel of the
  buffer, shared with it, and throws an IndexSizeError when the buffer has no channel.
\<close>

definition decodeAudioData :: "8 word list \<Rightarrow> AudioContext \<Rightarrow> js_error + AudioBuffer" where
  "decodeAudioData data ctx =
     (case int16Array data of
        Inl e \<Rightarrow> Inl e
      | Inr dataInt16 \<Rightarrow>
          (case createBuffer ctx 1 (length dataInt16) 24000 of
             Inl e \<Rightarrow> Inl e
           | Inr buffer \<Rightarrow>
               (case channels buffer of
                  [] \<Rightarrow> Inl IndexSizeError
                | channelData # others \<Rightarrow>
                    Inr (buffer\<lparr>channels := fillChannel dataInt16 0 channelData # others\<rparr>))))"

text \<open>
  \<^verbatim>\<open>if (!audioContextRef.current) audioContextRef.current = new AudioContext();\<close>
  with \<open>newContext\<close> the outcome of the constructor.
\<close>

definition ensureAudioContext :: "js_error + AudioContext \<Rightarrow> app_state \<Rightarrow> js_error + app_state" where
  "ensureAudioContext newContext st =
     (case audioContextRef st of
        Some ctx \<Rightarrow> Inr st
      | None \<Rightarrow>
          (case newContext of
             Inl e \<Rightarrow> Inl e
           | Inr ctx \<Rightarrow> Inr (st\<lparr>audioContextRef := Some ctx\<rparr>)))"

text \<open>The branch \<open>if (b64)\<close> of \<open>speakStep\<close>: decode the audio and start a source on it.\<close>

definition playAudio ::
  "(jsstring \<Rightarrow> js_error + jsstring) \<Rightarrow> jsstring \<Rightarrow> app_state \<Rightarrow> js_error + app_state" where
  "playAudio atob b64 st =
     (case audioContextRef st of
        None \<Rightarrow> Inl TypeError
      | Some ctx \<Rightarrow>
          (case decodeBase64 atob b64 of
             Inl e \<Rightarrow> Inl e
           | Inr bytes \<Rightarrow>
               (case decodeAudioData bytes ctx of
                  Inl e \<Rightarrow> Inl e
                | Inr buffer \<Rightarrow> Inr (st\<lparr>started := started st @ [buffer]\<rparr>))))"

text \<open>
  \<open>speakStep\<close>, with the speech request it awaits: \<open>resp\<close> is \<open>Inl\<close> when the request threw,
  and otherwise the base64 data of the first part of the first candidate, if any. Every
  exception inside the \<open>try\<close> ends in \<open>setIsSpeaking(false)\<close>.
\<close>

definition speakStep ::
  "(jsstring \<Rightarrow> js_error + jsstring) \<Rightarrow> js_error + AudioContext \<Rightarrow> js_error + jsstring option \<Rightarrow>
   jsstring \<Rightarrow> app_state \<Rightarrow> app_state" where
  "speakStep atob newContext resp text st =
     (if isSpeaking st then st
      else
        (case ensureAudioContext newContext (st\<lparr>isSpeaking := True\<rparr>) of
           Inl e \<Rightarrow> st\<lparr>isSpeaking := False\<rparr>
         | Inr st1 \<Rightarrow>
             (let st2 = st1\<lparr>speechRequests := speechRequests st1 @ [text]\<rparr>
              in case resp of
                   Inl e \<Rightarrow> st2\<lparr>isSpeaking := False\<rparr>
                 | Inr None \<Rightarrow> st2\<lparr>isSpeaking := False\<rparr>
                 | Inr (Some b64) \<Rightarrow>
                     if \<not> truthy b64 then st2\<lparr>isSpeaking := False\<rparr>
                     else
                       (case playAudio atob b64 st2 of
                          Inl e \<Rightarrow> st2\<lparr>isSpeaking := False\<rparr>
                        | Inr st3 \<Rightarrow> st3))))"

text \<open>\<open>source.onended = () => setIsSpeaking(false)\<close>.\<close>

definition audioEnded :: "app_state \<Rightarrow> app_state" where
  "audioEnded st = st\<lparr>isSpeaking := False\<rparr>"

text \<open>
  The Volume button of the overlay, \<open>disabled={isSpeaking}\<close>, speaks
  \<open>cookingMode.instructions[currentStep]\<close>; an index outside the list reads undefined,
  modelled as the empty text.
\<close>

definition clickSpeak ::
  "(jsstring \<Rightarrow> js_error + jsstring) \<Rightarrow> js_error + AudioContext \<Rightarrow> js_error + jsstring option \<Rightarrow>
   app_state \<Rightarrow> app_state" where
  "clickSpeak atob newContext resp st =
     (case cookingMode st of
        None \<Rightarrow> st
      | Some r \<Rightarrow>
          (case instructions r of
             None \<Rightarrow> st
           | Some steps \<Rightarrow>
               if isSpeaking st then st
               else speakStep atob newContext resp
                      (if 0 \<le> currentStep st \<and> currentStep st < int (length steps)
                       then steps ! nat (currentStep st) else [])
                      st))"

section \<open>JSON\<close>

text \<open>
  The values that \<open>JSON.stringify\<close> writes and \<open>JSON.parse\<close> reads. The members of a
  \<open>JObject\<close> are the properties of the object in the order of the text. The numbers
  of a value that the page writes are integers (\<open>int json\<close>). In a value that was read
  (\<open>int option json\<close>) a number is \<open>Some n\<close> when the text gives the integer \<open>n\<close> in
  digits and \<open>n\<close> is a safe integer, which a double holds exactly, and \<open>None\<close> for every
  other number (a fraction, an exponent, \<open>-0\<close>, an integer beyond \<open>2^53 - 1\<close>): the text
  is valid JSON, and its value is not computed here.
\<close>

datatype 'n json =
    JNull
  | JBool bool
  | JNumber 'n
  | JString jsstring
  | JArray "'n json list"
  | JObject "(jsstring \<times> 'n json) list"

definition maxSafeInteger :: int where
  "maxSafeInteger = 9007199254740991"


subsection \<open>\<open>JSON.stringify\<close>\<close>














subsection \<open>\<open>JSON.parse\<close>\<close>

text \<open>
  The JSON grammar of ECMA-404, which \<open>JSON.parse\<close> follows: white space is tab, line
  feed, carriage return and space; a string holds no code unit below space, and a
  backslash in it starts an escape: the quotation mark, the backslash, the solidus,
  \<open>b\<close>, \<open>f\<close>, \<open>n\<close>, \<open>r\<close>, \<open>t\<close>, or \<open>u\<close> with four hexadecimal digits of either case; a
  number is an optional minus, an integer part without a leading zero, an optional
  fraction and an optional exponent. Each parser gives the value read and the rest of
  the text.
\<close>

definition isJsonSpace :: "jschar \<Rightarrow> bool" where
  "isJsonSpace c = (c = 0x09 \<or> c = 0x0A \<or> c = 0x0D \<or> c = 0x20)"

definition skipSpace :: "jsstring \<Rightarrow> jsstring" where
  "skipSpace s = dropWhile isJsonSpace s"

definition isDigit :: "jschar \<Rightarrow> bool" where
  "isDigit c = (0x30 \<le> c \<and> c \<le> 0x39)"

definition hexValue :: "jschar \<Rightarrow> nat option" where
  "hexValue c =
     (if 0x30 \<le> c \<and> c \<le> 0x39 then Some (unat c - 48)
      else if 0x41 \<le> c \<and> c \<le> 0x46 then Some (unat c - 55)
      else if 0x61 \<le> c \<and> c \<le> 0x66 then Some (unat c - 87)
      else None)"

definition unescape :: "jschar \<Rightarrow> jschar option" where
  "unescape c =
     (if c = 0x22 then Some 0x22
      else if c = 0x5C then Some 0x5C
      else if c = 0x2F then Some 0x2F
      else if c = 0x62 then Some 0x08
      else if c = 0x66 then Some 0x0C
      else if c = 0x6E then Some 0x0A
      else if c = 0x72 then Some 0x0D
      else if c = 0x74 then Some 0x09
      else None)"

definition consChar ::
  "jschar \<Rightarrow> (jsstring \<times> jsstring) option \<Rightarrow> (jsstring \<times> jsstring) option" where
  "consChar c res = (case res of None \<Rightarrow> None | Some (cs, rest) \<Rightarrow> Some (c # cs, rest))"

definition hex4 :: "jschar \<Rightarrow> jschar \<Rightarrow> jschar \<Rightarrow> jschar \<Rightarrow> jschar option" where
  "hex4 h1 h2 h3 h4 =
     (case (hexValue h1, hexValue h2, hexValue h3, hexValue h4) of
        (Some a, Some b, Some c, Some d) \<Rightarrow> Some (of_nat (((a * 16 + b) * 16 + c) * 16 + d))
      | _ \<Rightarrow> None)"

text \<open>The code units of a string, from after the opening quotation mark.\<close>

fun parseChars :: "jsstring \<Rightarrow> (jsstring \<times> jsstring) option" where
  "parseChars [] = None"
| "parseChars (c # s) =
     (if c = 0x22 then Some ([], s)
      else if c = 0x5C then
        (case s of
           [] \<Rightarrow> None
         | e # s1 \<Rightarrow>
             if e = 0x75 then
               (case s1 of
                  h1 # h2 # h3 # h4 # s2 \<Rightarrow>
                    (case hex4 h1 h2 h3 h4 of
                       None \<Rightarrow> None
                     | Some u \<Rightarrow> consChar u (parseChars s2))
                | _ \<Rightarrow> None)
             else
               (case unescape e of
                  None \<Rightarrow> None
                | Some u \<Rightarrow> consChar u (parseChars s1)))
      else if c < 0x20 then None
      else consChar c (parseChars s))"

definition decimalValue :: "jsstring \<Rightarrow> int" where
  "decimalValue ds = foldl (\<lambda>a d. 10 * a + (uint d - 48)) 0 ds"

definition parseIntegerPart :: "jsstring \<Rightarrow> (jsstring \<times> jsstring) option" where
  "parseIntegerPart s =
     (case s of
        [] \<Rightarrow> None
      | c # r \<Rightarrow>
          if c = 0x30 then Some ([c], r)
          else if 0x31 \<le> c \<and> c \<le> 0x39 then Some (takeWhile isDigit s, dropWhile isDigit s)
          else None)"

definition parseFraction :: "jsstring \<Rightarrow> (bool \<times> jsstring) option" where
  "parseFraction s =
     (case s of
        [] \<Rightarrow> Some (False, s)
      | c # r \<Rightarrow>
          if c = 0x2E then
            (if takeWhile isDigit r = [] then None else Some (True, dropWhile isDigit r))
          else Some (False, s))"

definition parseExponent :: "jsstring \<Rightarrow> (bool \<times> jsstring) option" where
  "parseExponent s =
     (case s of
        [] \<Rightarrow> Some (False, s)
      | c # r \<Rightarrow>
          if c = 0x65 \<or> c = 0x45 then
            (let r1 = (case r of [] \<Rightarrow> r | d # r2 \<Rightarrow> if d = 0x2B \<or> d = 0x2D then r2 else r)
             in if takeWhile isDigit r1 = [] then None else Some (True, dropWhile isDigit r1))
          else Some (False, s))"

definition parseNumber :: "jsstring \<Rightarrow> (int option json \<times> jsstring) option" where
  "parseNumber s =
     (let (negative, s1) =
            (case s of [] \<Rightarrow> (False, s) | c # r \<Rightarrow> if c = 0x2D then (True, r) else (False, s))
      in case parseIntegerPart s1 of
           None \<Rightarrow> None
         | Some (ds, s2) \<Rightarrow>
             (case parseFraction s2 of
                None \<Rightarrow> None
              | Some (fraction, s3) \<Rightarrow>
                  (case parseExponent s3 of
                     None \<Rightarrow> None
                   | Some (exponent, s4) \<Rightarrow>
                       Some (JNumber
                              (if fraction \<or> exponent \<or> maxSafeInteger < decimalValue ds \<or>
                                  (negative \<and> decimalValue ds = 0)
                               then None
                               else Some (if negative then - decimalValue ds else decimalValue ds)),
                             s4))))"

text \<open>
  A property that the text gives twice keeps its first place and takes the later value.
\<close>

fun setProperty :: "jsstring \<Rightarrow> 'v \<Rightarrow> (jsstring \<times> 'v) list \<Rightarrow> (jsstring \<times> 'v) list" where
  "setProperty k v [] = [(k, v)]"
| "setProperty k v ((k', v') # ms) =
     (if k' = k then (k, v) # ms else (k', v') # setProperty k v ms)"

lemma length_skipSpace: "length (skipSpace s) \<le> length s"
  by (simp add: skipSpace_def length_dropWhile_le)

lemma skipSpace_Cons_length: "skipSpace s = c # r \<Longrightarrow> length r < length s"
  using length_skipSpace [of s] by simp

lemma consChar_Some: "consChar c res = Some (cs, r) \<Longrightarrow> \<exists>cs'. res = Some (cs', r)"
  by (auto simp: consChar_def split: option.splits)

lemma parseChars_length: "parseChars s = Some (cs, r) \<Longrightarrow> length r < length s"
proof (induction s arbitrary: cs r rule: length_induct)
  case (1 s)
  show ?case
  proof (cases s)
    case Nil
    with "1.prems" show ?thesis by simp
  next
    case (Cons c s')
    have step: "\<And>t cs'. parseChars t = Some (cs', r) \<Longrightarrow> length t < length s \<Longrightarrow> length r < length t"
      using "1.IH" by blast
    from "1.prems" Cons show ?thesis
      apply (simp split: if_splits list.splits option.splits)
        apply (auto dest!: consChar_Some)
        apply (frule step; simp)+
      done
  qed
qed

text \<open>
  A value, the elements of an array after its first bracket or a comma, and the members
  of an object likewise; \<open>seen\<close> holds the elements and the members read so far. A value
  that was read has used up some of the text, so the tests on the lengths always
  succeed: they are there for the termination of the recursion.
\<close>

function (sequential) parseValue :: "jsstring \<Rightarrow> (int option json \<times> jsstring) option"
  and parseElements ::
    "int option json list \<Rightarrow> jsstring \<Rightarrow> (int option json \<times> jsstring) option"
  and parseMembers ::
    "(jsstring \<times> int option json) list \<Rightarrow> jsstring \<Rightarrow> (int option json \<times> jsstring) option"
where
  "parseValue [] = None"
| "parseValue (c # r) =
     (if c = 0x7B then
        (case skipSpace r of
           [] \<Rightarrow> None
         | d # r1 \<Rightarrow> if d = 0x7D then Some (JObject [], r1) else parseMembers [] (d # r1))
      else if c = 0x5B then
        (case skipSpace r of
           [] \<Rightarrow> None
         | d # r1 \<Rightarrow> if d = 0x5D then Some (JArray [], r1) else parseElements [] (d # r1))
      else if c = 0x22 then
        (case parseChars r of None \<Rightarrow> None | Some (cs, r1) \<Rightarrow> Some (JString cs, r1))
      else if startsWith (c # r) (lit ''true'') then Some (JBool True, drop 4 (c # r))
      else if startsWith (c # r) (lit ''false'') then Some (JBool False, drop 5 (c # r))
      else if startsWith (c # r) (lit ''null'') then Some (JNull, drop 4 (c # r))
      else parseNumber (c # r))"
| "parseElements seen s =
     (case parseValue s of
        None \<Rightarrow> None
      | Some (v, r) \<Rightarrow>
          if length r < length s then
            (case skipSpace r of
               [] \<Rightarrow> None
             | d # r1 \<Rightarrow>
                 if d = 0x2C then parseElements (seen @ [v]) (skipSpace r1)
                 else if d = 0x5D then Some (JArray (seen @ [v]), r1)
                 else None)
          else None)"
| "parseMembers seen [] = None"
| "parseMembers seen (c # r) =
     (if c = 0x22 then
        (case parseChars r of
           None \<Rightarrow> None
         | Some (k, r1) \<Rightarrow>
             (case skipSpace r1 of
                [] \<Rightarrow> None
              | d # r2 \<Rightarrow>
                  if d = 0x3A then
                    (case parseValue (skipSpace r2) of
                       None \<Rightarrow> None
                     | Some (v, r3) \<Rightarrow>
                         if length r3 < length (c # r) then
                           (case skipSpace r3 of
                              [] \<Rightarrow> None
                            | e # r4 \<Rightarrow>
                                if e = 0x2C then parseMembers (setProperty k v seen) (skipSpace r4)
                                else if e = 0x7D then Some (JObject (setProperty k v seen), r4)
                                else None)
                         else None)
                  else None))
      else None)"
  by pat_completeness auto
termination
  apply (relation "measure (\<lambda>x. case x of
            Inl s \<Rightarrow> 2 * length s
          | Inr (Inl (seen, s)) \<Rightarrow> 2 * length s + 1
          | Inr (Inr (seen, s)) \<Rightarrow> 2 * length s + 1)")
         apply (auto dest!: skipSpace_Cons_length parseChars_length)
  subgoal for s a b x22 using length_skipSpace [of x22] by linarith
  subgoal for r b x22 using length_skipSpace [of x22] by linarith
  subgoal for r b x22 aa ba x22a using length_skipSpace [of x22a] by linarith
  done

declare parseValue.simps [simp del] parseElements.simps [simp del] parseMembers.simps [simp del]

text \<open>\<open>JSON.parse(text)\<close>: one value, with white space around it, or a \<open>SyntaxError\<close>.\<close>

definition JSON_parse :: "jsstring \<Rightarrow> js_error + int option json" where
  "JSON_parse text =
     (case parseValue (skipSpace text) of
        None \<Rightarrow> Inl SyntaxError
      | Some (v, r) \<Rightarrow> if skipSpace r = [] then Inr v else Inl SyntaxError)"


definition delimited :: "jsstring \<Rightarrow> bool" where
  "delimited rest = (case rest of [] \<Rightarrow> True | c # r \<Rightarrow> c = 0x2C \<or> c = 0x5D \<or> c = 0x7D)"



section \<open>Persistence\<close>

















text \<open>
  \<open>localStorage\<close>: the entries, and the browser's decision on a write. \<open>getItem\<close> of a
  missing key is null. \<open>setItem\<close> throws a \<open>QuotaExceededError\<close> when the new value
  could not be set, because the quota is used up or the storage is disabled;
  \<open>accepts\<close> tells, for the entries held, a key and a value, whether the write goes
  through.
\<close>

record localStorage =
  entries :: "jsstring \<rightharpoonup> jsstring"
  accepts :: "(jsstring \<rightharpoonup> jsstring) \<Rightarrow> jsstring \<Rightarrow> jsstring \<Rightarrow> bool"


definition setItem :: "jsstring \<Rightarrow> jsstring \<Rightarrow> localStorage \<Rightarrow> js_error + localStorage" where
  "setItem k v store =
     (if accepts store (entries store) k v
      then Inr (store\<lparr>entries := (entries store)(k \<mapsto> v)\<rparr>)
      else Inl QuotaExceededError)"












section \<open>The page as a state machine\<close>

text \<open>
  What the browser and the services contribute: \<open>JSON.parse\<close> on a generation response,
  \<open>atob\<close>, and the outcome of constructing an \<open>AudioContext\<close>.
\<close>

record platform =
  parseData :: "jsstring \<Rightarrow> js_error + GenData"
  atobFn :: "jsstring \<Rightarrow> js_error + jsstring"
  newAudioContext :: "js_error + AudioContext"

text \<open>
  The events of a session: the clicks and inputs of the user, and the settling of a
  request with its outcome. A request settles in an event of its own, so that other
  events may come between the click and the answer.
\<close>

datatype action =
    SetView view
  | SetPrompt jsstring
  | ClickGenerate
  | GenerationSettled "js_error + jsstring option" jsstring int
  | ClickVisualize
  | VisualizationSettled "js_error + (jsstring \<times> jsstring) option"
  | ClickPlay
  | ClickHeart
  | SetSearchQuery jsstring
  | ClickCard nat
  | ClickTrash nat
  | OpenAddDish
  | CloseAddDish
  | SetCustomDish CustomDish
  | ClickSaveToPantry jsstring int
  | SetNewItemText jsstring
  | ClickAddItem
  | ClickRemoveItem nat
  | ClickExit
  | ClickPrevious
  | ClickNext
  | ClickSpeak "js_error + jsstring option"
  | AudioEnded
  | ClickScan bool
  | ClickShutter jsstring
  | ClickRetake
  | ClickAnalyze
  | CloseCamera

text \<open>
  \<open>dispatch\<close> gives each event the handler that the rendered page binds to it; an event
  on a control that is not rendered, or is disabled, leaves the state as it is. The cards
  of the pantry are addressed by their index in \<open>savedRecipes\<close>; the search box, which only
  hides cards, does not restrict them here.
\<close>

fun dispatch :: "platform \<Rightarrow> app_state \<Rightarrow> action \<Rightarrow> app_state" where
  "dispatch p st (SetView v) = st\<lparr>view := v\<rparr>"
| "dispatch p st (SetPrompt s) = (if view st = Kitchen then setPrompt s st else st)"
| "dispatch p st ClickGenerate =
     (if view st = Kitchen \<and> \<not> isGenerating st \<and> truthy (prompt st)
      then generateRecipe_start st else st)"
| "dispatch p st (GenerationSettled resp uuid now) =
     generateRecipe_settle (parseData p) uuid now resp st"
| "dispatch p st ClickVisualize =
     (case currentRecipe st of
        None \<Rightarrow> st
      | Some r \<Rightarrow>
          if view st = Kitchen \<and> imageUrl r = None \<and> \<not> isVisualizing st
          then visualizeRecipe_start st else st)"
| "dispatch p st (VisualizationSettled resp) = visualizeRecipe_settle resp st"
| "dispatch p st ClickPlay =
     (case currentRecipe st of
        None \<Rightarrow> st
      | Some r \<Rightarrow> if view st = Kitchen then enterCookingMode r st else st)"
| "dispatch p st ClickHeart =
     (case currentRecipe st of
        None \<Rightarrow> st
      | Some r \<Rightarrow> if view st = Kitchen then saveRecipe r st else st)"
| "dispatch p st (SetSearchQuery s) = (if view st = Pantry then setSearchQuery s st else st)"
| "dispatch p st (ClickCard i) =
     (if view st = Pantry \<and> i < length (savedRecipes st)
      then selectRecipe (savedRecipes st ! i) st else st)"
| "dispatch p st (ClickTrash i) =
     (if view st = Pantry \<and> i < length (savedRecipes st)
      then deleteRecipe (recipeId (savedRecipes st ! i)) st else st)"
| "dispatch p st OpenAddDish = (if view st = Pantry then st\<lparr>showAddDishModal := True\<rparr> else st)"
| "dispatch p st CloseAddDish = (if showAddDishModal st then st\<lparr>showAddDishModal := False\<rparr> else st)"
| "dispatch p st (SetCustomDish d) = (if showAddDishModal st then setCustomDish d st else st)"
| "dispatch p st (ClickSaveToPantry uuid now) =
     (if showAddDishModal st \<and> truthy (dishTitle (customDish st))
      then addManualDish uuid now st else st)"
| "dispatch p st (SetNewItemText s) = (if view st = Shopping then setNewItemText s st else st)"
| "dispatch p st ClickAddItem = (if view st = Shopping then addShoppingItem st else st)"
| "dispatch p st (ClickRemoveItem i) =
     (if view st = Shopping \<and> i < length (manualShoppingItems st)
      then removeShoppingItem i st else st)"
| "dispatch p st ClickExit = (if cookingMode st = None then st else exitCookingMode st)"
| "dispatch p st ClickPrevious = clickPrevious st"
| "dispatch p st ClickNext = clickNext st"
| "dispatch p st (ClickSpeak resp) = clickSpeak (atobFn p) (newAudioContext p) resp st"
| "dispatch p st AudioEnded = audioEnded st"
| "dispatch p st (ClickScan granted) = (if view st = Kitchen then startCamera granted st else st)"
| "dispatch p st (ClickShutter photo) =
     (if isCameraOpen st \<and> capturedImage st = None then capturePhoto photo st else st)"
| "dispatch p st ClickRetake =
     (if isCameraOpen st \<and> capturedImage st \<noteq> None then st\<lparr>capturedImage := None\<rparr> else st)"
| "dispatch p st ClickAnalyze =
     (if isCameraOpen st \<and> capturedImage st \<noteq> None then generateRecipe_start st else st)"
| "dispatch p st CloseCamera = (if isCameraOpen st then st\<lparr>isCameraOpen := False\<rparr> else st)"

text \<open>
  The render of a state throws where it reads a property of an undefined field: the
  kitchen calls \<open>Object.entries(currentRecipe.nutrition)\<close> and
  \<open>currentRecipe.ingredients.map\<close> on the current recipe, and the cooking overlay reads
  \<open>cookingMode.instructions[currentStep]\<close>. Every other field is only shown, and an
  undefined one shows nothing.
\<close>

definition renderError :: "app_state \<Rightarrow> js_error option" where
  "renderError st =
     (if view st = Kitchen \<and>
         (case currentRecipe st of
            None \<Rightarrow> False
          | Some r \<Rightarrow> nutrition r = None \<or> ingredients r = None)
      then Some TypeError
      else if (case cookingMode st of None \<Rightarrow> False | Some r \<Rightarrow> instructions r = None)
      then Some TypeError
      else None)"

text \<open>
  An event of the page. No error boundary catches an exception of the render: the page
  is unmounted, and no event changes its state any more.
\<close>

definition perform :: "platform \<Rightarrow> app_state \<Rightarrow> action \<Rightarrow> app_state" where
  "perform p st a = (case renderError st of Some e \<Rightarrow> st | None \<Rightarrow> dispatch p st a)"

text \<open>A session is a list of events, performed from left to right.\<close>

definition session :: "platform \<Rightarrow> app_state \<Rightarrow> action list \<Rightarrow> app_state" where
  "session p st evs = foldl (perform p) st evs"

section \<open>The marker of a title\<close>

text \<open>
  A recipe is marked when its title contains \<open>by praj\<close>. The recipes of a state are the
  saved ones, the current one and the one being cooked.
\<close>

definition marked :: "Recipe \<Rightarrow> bool" where
  "marked r = includesStr (title r) (lit ''by praj'')"

definition recipesOf :: "app_state \<Rightarrow> Recipe set" where
  "recipesOf st = set (savedRecipes st) \<union> set_option (currentRecipe st) \<union> set_option (cookingMode st)"

definition allMarked :: "app_state \<Rightarrow> bool" where
  "allMarked st = (\<forall>r \<in> recipesOf st. marked r)"

section \<open>Signed 16-bit samples\<close>

text \<open>
  The sample that two bytes stand for in the words of the specification, signed 16-bit
  little-endian PCM: the low byte comes first, and the 16-bit value is read in two's
  complement. This definition follows the specification, not \<open>App.tsx\<close>.
\<close>

definition pcmSample :: "8 word \<Rightarrow> 8 word \<Rightarrow> int" where
  "pcmSample lo hi =
     (let u = uint lo + 256 * uint hi in if u < 32768 then u else u - 65536)"

text \<open>A buffer of one channel with \<open>n\<close> samples at the given rate.\<close>

definition monoBuffer :: "nat \<Rightarrow> nat \<Rightarrow> AudioBuffer \<Rightarrow> bool" where
  "monoBuffer n rate b =
     (numberOfChannels b = 1 \<and> sampleRate b = rate \<and> length (channels b) = 1 \<and>
      length (hd (channels b)) = n)"

section \<open>Example data\<close>

text \<open>A recipe with all its fields, for the examples below.\<close>

definition exampleRecipe :: "string \<Rightarrow> string \<Rightarrow> string list \<Rightarrow> Recipe" where
  "exampleRecipe i t steps =
     \<lparr>recipeId = lit i, title = lit t, description = Some (lit ''Crafted by praj''),
      ingredients = Some [lit ''salt''], instructions = Some (map lit steps),
      prepTime = Some (lit ''20 min''), servings = Some (lit ''2''),
      nutrition = Some \<lparr>calories = lit ''400'', protein = lit ''12g'', carbs = lit ''60g'', fat = lit ''9g''\<rparr>,
      imageUrl = None, createdAt = 0\<rparr>"

definition soupDish :: CustomDish where
  "soupDish = \<lparr>dishTitle = lit ''Soup'', desc = [], dishIngredients = []\<rparr>"

text \<open>A cooking session on a recipe of three steps, standing at the second.\<close>

definition cookingRamen :: app_state where
  "cookingRamen =
     initial_state\<lparr>cookingMode := Some (exampleRecipe ''a'' ''Ramen (by praj)'' [''Boil'', ''Pour'', ''Serve'']),
                   currentStep := 1\<rparr>"

text \<open>
  Response texts of the generation service and the values \<open>JSON.parse\<close> gives for them:
  two with every field of the schema, of three steps and of one step, and one with a
  title only. \<open>exampleParse\<close> is \<open>JSON.parse\<close> on these texts and on \<open>{}\<close>, read as
  the fields of the schema, and rejects every other text.
\<close>

definition noData :: GenData where
  "noData = \<lparr>dataTitle = None, dataDescription = None, dataPrepTime = None, dataServings = None,
     dataNutrition = None, dataIngredients = None, dataInstructions = None,
     dataImageUrl = None\<rparr>"

definition fullData :: "string \<Rightarrow> string list \<Rightarrow> GenData" where
  "fullData t steps =
     \<lparr>dataTitle = Some (lit t), dataDescription = Some (lit ''Crafted by praj''),
      dataPrepTime = Some (lit ''20 min''), dataServings = Some (lit ''2''),
      dataNutrition = Some \<lparr>calories = lit ''400'', protein = lit ''12g'', carbs = lit ''60g'', fat = lit ''9g''\<rparr>,
      dataIngredients = Some [lit ''salt''], dataInstructions = Some (map lit steps),
      dataImageUrl = None\<rparr>"

definition ramenText :: jsstring where
  \<open>ramenText = lit (''{"title":"Ramen","description":"Crafted by praj","prepTime":"20 min","servings":"2",'' @
     ''"nutrition":{"calories":"400","protein":"12g","carbs":"60g","fat":"9g"},'' @
     ''"ingredients":["salt"],"instructions":["Boil","Pour","Serve"]}'')\<close>

definition toastText :: jsstring where
  \<open>toastText = lit (''{"title":"Toast","description":"Crafted by praj","prepTime":"20 min","servings":"2",'' @
     ''"nutrition":{"calories":"400","protein":"12g","carbs":"60g","fat":"9g"},'' @
     ''"ingredients":["salt"],"instructions":["Toast the bread"]}'')\<close>

definition teaText :: jsstring where
  \<open>teaText = lit ''{"title":"Tea"}''\<close>

definition exampleParse :: "jsstring \<Rightarrow> js_error + GenData" where
  "exampleParse s =
     (if s = ramenText then Inr (fullData ''Ramen'' [''Boil'', ''Pour'', ''Serve''])
      else if s = toastText then Inr (fullData ''Toast'' [''Toast the bread''])
      else if s = teaText then Inr (noData\<lparr>dataTitle := Some (lit ''Tea'')\<rparr>)
      else if s = lit ''{}'' then Inr noData
      else Inl SyntaxError)"


text \<open>
  An audio context whose \<open>createBuffer\<close> gives a silent buffer of the shape asked for,
  and refuses a buffer without channels or without samples.
\<close>

definition exampleContext :: AudioContext where
  "exampleContext =
     \<lparr>createBuffer = (\<lambda>c n rate.
        if c = 0 \<or> n = 0 then Inl NotSupportedError
        else Inr \<lparr>numberOfChannels = c, sampleRate = rate, channels = replicate c (replicate n 0)\<rparr>)\<rparr>"

text \<open>
  \<open>exampleAtob\<close> is \<open>atob\<close> on the base64 text \<open>AIA=\<close>, the bytes 00 and 80, and rejects
  every other text.
\<close>

definition exampleAtob :: "jsstring \<Rightarrow> js_error + jsstring" where
  "exampleAtob s = (if s = lit ''AIA='' then Inr [0x0000, 0x0080] else Inl InvalidCharacterError)"

definition examplePlatform :: platform where
  "examplePlatform =
     \<lparr>parseData = exampleParse, atobFn = exampleAtob, newAudioContext = Inr exampleContext\<rparr>"

text \<open>
  A session that cooks a generated recipe of three steps up to its last step, leaves
  cooking mode, and enters it again on a generated recipe of one step.
\<close>

definition staleStepSession :: "action list" where
  "staleStepSession =
     [SetPrompt (lit ''ramen''), ClickGenerate,
      GenerationSettled (Inr (Some ramenText)) (lit ''id-1'') 1,
      ClickPlay, ClickNext, ClickNext, ClickExit,
      SetPrompt (lit ''toast''), ClickGenerate,
      GenerationSettled (Inr (Some toastText)) (lit ''id-2'') 2,
      ClickPlay]"


text \<open>The pantry with one saved recipe and the manual dish modal open on ``Soup''.\<close>

definition pantryWithSoup :: app_state where
  "pantryWithSoup =
     initial_state\<lparr>view := Pantry, showAddDishModal := True, customDish := soupDish,
                   savedRecipes := [exampleRecipe ''a'' ''Ramen (by praj)'' [''Boil'']]\<rparr>"

text \<open>A session that generates a recipe from a response with a title only.\<close>

definition teaSession :: "action list" where
  "teaSession =
     [SetPrompt (lit ''tea''), ClickGenerate,
      GenerationSettled (Inr (Some teaText)) (lit ''id-1'') 1]"

text \<open>Three samples: the lowest, the highest, and a half of full scale.\<close>

definition pcmBytes :: "8 word list" where
  "pcmBytes = [0x00, 0x80, 0xFF, 0x7F, 0x00, 0x40]"

text \<open>The cooking session while the second step is being narrated.\<close>

definition narratingRamen :: app_state where
  "narratingRamen =
     cookingRamen\<lparr>isSpeaking := True, audioContextRef := Some exampleContext,
                  speechRequests := [lit ''Pour'']\<rparr>"








section \<open>Facts about the string operations\<close>

lemma dropWhile_Nil_all: "dropWhile P xs = [] \<longleftrightarrow> list_all P xs"
  by (induction xs) auto

text \<open>\<open>trim\<close> gives the empty string exactly on strings of white space.\<close>

lemma trim_Nil_iff: "trim s = [] \<longleftrightarrow> list_all isWhiteSpace s"
proof
  assume "trim s = []"
  then have e: "dropWhile isWhiteSpace (rev (dropWhile isWhiteSpace s)) = []"
    by (simp add: trim_def)
  show "list_all isWhiteSpace s"
  proof (cases "dropWhile isWhiteSpace s")
    case Nil
    then show ?thesis using dropWhile_Nil_all by blast
  next
    case (Cons c cs)
    then have "\<not> isWhiteSpace c"
      by (metis hd_dropWhile list.sel(1) list.distinct(1))
    moreover from e have "list_all isWhiteSpace (rev (dropWhile isWhiteSpace s))"
      by (rule dropWhile_Nil_all [THEN iffD1])
    ultimately show ?thesis using Cons by (simp add: list_all_iff)
  qed
next
  assume "list_all isWhiteSpace s"
  then have "dropWhile isWhiteSpace s = []" by (rule dropWhile_Nil_all [THEN iffD2])
  then show "trim s = []" by (simp add: trim_def del: dropWhile_eq_Nil_conv)
qed

text \<open>\<open>trim\<close> removes white space at both ends and nothing else.\<close>

lemma trim_decomp:
  "\<exists>p q. s = p @ trim s @ q \<and> list_all isWhiteSpace p \<and> list_all isWhiteSpace q"
proof -
  let ?a = "dropWhile isWhiteSpace s"
  have 1: "s = takeWhile isWhiteSpace s @ ?a" by simp
  have 2: "rev ?a = takeWhile isWhiteSpace (rev ?a) @ dropWhile isWhiteSpace (rev ?a)" by simp
  have "?a = rev (rev ?a)" by simp
  also have "\<dots> = trim s @ rev (takeWhile isWhiteSpace (rev ?a))"
    unfolding trim_def by (subst 2) (simp only: rev_append)
  finally have 3: "?a = trim s @ rev (takeWhile isWhiteSpace (rev ?a))" .
  have "s = takeWhile isWhiteSpace s @ trim s @ rev (takeWhile isWhiteSpace (rev ?a))"
    using 1 3 by metis
  moreover have "list_all isWhiteSpace (takeWhile isWhiteSpace s)"
    by (simp add: list_all_iff) (meson set_takeWhileD)
  moreover have "list_all isWhiteSpace (rev (takeWhile isWhiteSpace (rev ?a)))"
    by (simp add: list_all_iff) (meson set_takeWhileD)
  ultimately show ?thesis by blast
qed

lemma dropWhile_rev_dropWhile_last:
  assumes "dropWhile P (rev (dropWhile P s)) \<noteq> []"
  shows "\<not> P (last (dropWhile P (rev (dropWhile P s))))"
proof -
  let ?a = "dropWhile P s"
  have ne: "?a \<noteq> []"
  proof
    assume "?a = []"
    with assms show False by simp
  qed
  have "last (dropWhile P (rev ?a)) = last (rev ?a)"
    using assms by (metis last_appendR takeWhile_dropWhile_id)
  also have "\<dots> = hd ?a" using ne by (simp add: last_rev)
  finally show ?thesis using ne hd_dropWhile by metis
qed

lemma trim_ends:
  assumes "trim s \<noteq> []"
  shows "\<not> isWhiteSpace (hd (trim s)) \<and> \<not> isWhiteSpace (last (trim s))"
proof -
  let ?b = "dropWhile isWhiteSpace (rev (dropWhile isWhiteSpace s))"
  from assms have ne: "?b \<noteq> []" by (simp add: trim_def)
  have "hd (trim s) = last ?b" using ne by (simp add: trim_def hd_rev)
  moreover have "last (trim s) = hd ?b" using ne by (simp add: trim_def last_rev)
  moreover have "\<not> isWhiteSpace (hd ?b)" using ne hd_dropWhile by metis
  moreover have "\<not> isWhiteSpace (last ?b)" using ne by (rule dropWhile_rev_dropWhile_last)
  ultimately show ?thesis by simp
qed

text \<open>\<open>startsWith\<close> and \<open>includesStr\<close> are the prefix and the substring relation.\<close>

lemma startsWith_iff: "startsWith s t \<longleftrightarrow> (\<exists>q. s = t @ q)"
  by (induction s t rule: startsWith.induct) auto

lemma includesStr_iff: "includesStr s t \<longleftrightarrow> (\<exists>p q. s = p @ t @ q)"
proof (induction s)
  case Nil
  then show ?case by auto
next
  case (Cons c s)
  show ?case
  proof
    assume "includesStr (c # s) t"
    then consider "startsWith (c # s) t" | "includesStr s t" by auto
    then show "\<exists>p q. c # s = p @ t @ q"
    proof cases
      case 1
      then obtain q where "c # s = t @ q" using startsWith_iff by blast
      then have "c # s = [] @ t @ q" by simp
      then show ?thesis by blast
    next
      case 2
      then obtain p q where "s = p @ t @ q" using Cons.IH by blast
      then have "c # s = (c # p) @ t @ q" by simp
      then show ?thesis by blast
    qed
  next
    assume "\<exists>p q. c # s = p @ t @ q"
    then obtain p q where e: "c # s = p @ t @ q" by blast
    show "includesStr (c # s) t"
    proof (cases p)
      case Nil
      with e have "startsWith (c # s) t" using startsWith_iff by auto
      then show ?thesis by simp
    next
      case (Cons d p')
      with e have "s = p' @ t @ q" by simp
      then have "includesStr s t" using Cons.IH by blast
      then show ?thesis by simp
    qed
  qed
qed

text \<open>Filtering out one index of a list.\<close>

lemma filter_index_enumerate:
  "map snd (filter (\<lambda>(idx, item). idx \<noteq> n + i) (enumerate n xs)) = take i xs @ drop (Suc i) xs"
proof (induction xs arbitrary: n i)
  case Nil
  then show ?case by simp
next
  case (Cons x xs)
  show ?case
  proof (cases i)
    case 0
    have "filter (\<lambda>(idx, item). idx \<noteq> n) (enumerate (Suc n) xs) = enumerate (Suc n) xs"
      by (rule filter_True) (auto simp: in_set_enumerate_eq)
    then show ?thesis using 0 by simp
  next
    case (Suc j)
    then show ?thesis using Cons.IH [of "Suc n" j] by simp
  qed
qed

lemmas example_defs = examplePlatform_def exampleParse_def ramenText_def toastText_def teaText_def
  noData_def fullData_def

lemmas handler_defs = setPrompt_def generateRecipe_start_def generateRecipe_settle_def
  generatedRecipe_def responseText_def orElse_def truthy_def finalTitle_def
  enterCookingMode_def exitCookingMode_def clickNext_def clickPrevious_def nextDisabled_def
  previousDisabled_def nextStep_def previousStep_def

section \<open>The saved collection\<close>

text \<open>The Heart button does nothing when a saved recipe has the title, and adds the
  recipe otherwise.\<close>

lemma saveRecipe_duplicate:
  "\<exists>s \<in> set (savedRecipes st). title s = title r \<Longrightarrow> saveRecipe r st = st"
  by (auto simp: saveRecipe_def find_None_iff)

lemma saveRecipe_fresh:
  "\<forall>s \<in> set (savedRecipes st). title s \<noteq> title r \<Longrightarrow>
   saveRecipe r st = st\<lparr>savedRecipes := r # savedRecipes st\<rparr>"
  by (auto simp: saveRecipe_def find_None_iff)

text \<open>
  C1. Adding a recipe whose title a saved recipe already has leaves the saved collection
  as it is, on every path that adds a recipe. \<open>addManualDish\<close> does not look at the saved
  titles: entering the dish ``Soup'' twice saves two recipes titled ``Soup (by praj)''.
\<close>

theorem addManualDish_keeps_duplicate_title:
  "map title (savedRecipes (addManualDish (lit ''id-1'') 1 (setCustomDish soupDish initial_state)))
     = [lit ''Soup (by praj)''] \<and>
   map title (savedRecipes (addManualDish (lit ''id-2'') 2 (setCustomDish soupDish
       (addManualDish (lit ''id-1'') 1 (setCustomDish soupDish initial_state)))))
     = [lit ''Soup (by praj)'', lit ''Soup (by praj)'']"
  by (simp add: addManualDish_def setCustomDish_def soupDish_def initial_state_def
      manualRecipe_def truthy_def lit_def)

text \<open>
  C4, as stated: the new recipe comes last in the saved collection. Saving ``Ramen''
  next to a saved ``Soup'' does not give Soup, Ramen, and neither does a manual dish come
  after the recipes saved before it.
\<close>

theorem new_recipe_comes_last_counterexample:
  "savedRecipes (saveRecipe (exampleRecipe ''b'' ''Ramen (by praj)'' [''Boil''])
       (initial_state\<lparr>savedRecipes := [exampleRecipe ''a'' ''Soup (by praj)'' [''Stir'']]\<rparr>))
     \<noteq> [exampleRecipe ''a'' ''Soup (by praj)'' [''Stir'']] @ [exampleRecipe ''b'' ''Ramen (by praj)'' [''Boil'']] \<and>
   savedRecipes (addManualDish (lit ''c'') 5 (initial_state\<lparr>customDish := soupDish,
       savedRecipes := [exampleRecipe ''b'' ''Ramen (by praj)'' [''Boil'']]\<rparr>))
     \<noteq> [exampleRecipe ''b'' ''Ramen (by praj)'' [''Boil'']] @ [manualRecipe (lit ''c'') 5 soupDish]"
  by (simp add: saveRecipe_def addManualDish_def exampleRecipe_def soupDish_def initial_state_def
      manualRecipe_def truthy_def lit_def)

text \<open>
  C4, amended: a recipe that is added to the library, and a manually entered dish, is
  put in front of the saved collection; the recipes saved before follow it in their
  order.
\<close>

theorem new_recipe_comes_first:
  "(find (\<lambda>s. title s = title r) (savedRecipes st) = None \<longrightarrow>
      savedRecipes (saveRecipe r st) = r # savedRecipes st) \<and>
   (truthy (dishTitle (customDish st)) \<longrightarrow>
      savedRecipes (addManualDish uuid now st) = manualRecipe uuid now (customDish st) # savedRecipes st)"
  by (simp add: saveRecipe_def addManualDish_def)

theorem new_recipe_comes_first_witness:
  "find (\<lambda>s. title s = lit ''Ramen (by praj)'') [exampleRecipe ''a'' ''Soup (by praj)'' [''Stir'']] = None \<and>
   savedRecipes (saveRecipe (exampleRecipe ''b'' ''Ramen (by praj)'' [''Boil''])
       (initial_state\<lparr>customDish := soupDish, savedRecipes := [exampleRecipe ''a'' ''Soup (by praj)'' [''Stir'']]\<rparr>))
     = [exampleRecipe ''b'' ''Ramen (by praj)'' [''Boil''], exampleRecipe ''a'' ''Soup (by praj)'' [''Stir'']] \<and>
   truthy (dishTitle soupDish) \<and>
   savedRecipes (addManualDish (lit ''c'') 5
       (initial_state\<lparr>customDish := soupDish, savedRecipes := [exampleRecipe ''a'' ''Soup (by praj)'' [''Stir'']]\<rparr>))
     = [manualRecipe (lit ''c'') 5 soupDish, exampleRecipe ''a'' ''Soup (by praj)'' [''Stir'']]"
  using new_recipe_comes_first [of "exampleRecipe ''b'' ''Ramen (by praj)'' [''Boil'']"
      "initial_state\<lparr>customDish := soupDish, savedRecipes := [exampleRecipe ''a'' ''Soup (by praj)'' [''Stir'']]\<rparr>"
      "lit ''c''" 5]
  by (simp add: exampleRecipe_def soupDish_def truthy_def lit_def)

section \<open>The shopping list\<close>

text \<open>
  C9. \<open>addShoppingItem\<close> leaves the state as it is when the input is empty or white space
  only, and otherwise puts the trimmed input at the end of the list; removing the item
  at index \<open>i\<close> keeps the items before and after it, in their order; adding ``Milk'' and
  ``Eggs'' and removing index 0 leaves the list with ``Eggs'' alone.
\<close>

theorem shopping_list_add_remove:
  "addShoppingItem st =
     (if list_all isWhiteSpace (newItemText st) then st
      else st\<lparr>manualShoppingItems := manualShoppingItems st @ [trim (newItemText st)],
              newItemText := []\<rparr>) \<and>
   manualShoppingItems (removeShoppingItem i st) =
     take i (manualShoppingItems st) @ drop (Suc i) (manualShoppingItems st) \<and>
   manualShoppingItems (removeShoppingItem 0 (addShoppingItem (setNewItemText (lit ''Eggs'')
       (addShoppingItem (setNewItemText (lit ''Milk'') initial_state))))) = [lit ''Eggs'']"
proof (intro conjI)
  show "addShoppingItem st =
     (if list_all isWhiteSpace (newItemText st) then st
      else st\<lparr>manualShoppingItems := manualShoppingItems st @ [trim (newItemText st)],
              newItemText := []\<rparr>)"
    using trim_Nil_iff [of "newItemText st"] by (simp add: addShoppingItem_def truthy_def)
  show "manualShoppingItems (removeShoppingItem i st) =
     take i (manualShoppingItems st) @ drop (Suc i) (manualShoppingItems st)"
    using filter_index_enumerate [of 0 i "manualShoppingItems st"]
    by (simp add: removeShoppingItem_def)
  show "manualShoppingItems (removeShoppingItem 0 (addShoppingItem (setNewItemText (lit ''Eggs'')
       (addShoppingItem (setNewItemText (lit ''Milk'') initial_state))))) = [lit ''Eggs'']"
    by (simp add: removeShoppingItem_def addShoppingItem_def setNewItemText_def
        initial_state_def trim_def truthy_def lit_def isWhiteSpace_def enumerate_eq_zip)
qed

theorem shopping_list_add_remove_witness:
  "addShoppingItem (setNewItemText (lit ''  '') (initial_state\<lparr>manualShoppingItems := [lit ''Milk'']\<rparr>))
     = setNewItemText (lit ''  '') (initial_state\<lparr>manualShoppingItems := [lit ''Milk'']\<rparr>) \<and>
   manualShoppingItems (addShoppingItem (setNewItemText (lit '' Eggs '')
       (initial_state\<lparr>manualShoppingItems := [lit ''Milk'']\<rparr>))) = [lit ''Milk'', lit ''Eggs''] \<and>
   manualShoppingItems (removeShoppingItem 1
       (initial_state\<lparr>manualShoppingItems := [lit ''Milk'', lit ''Eggs'', lit ''Rice'']\<rparr>))
     = [lit ''Milk'', lit ''Rice'']"
  using shopping_list_add_remove [of "setNewItemText (lit ''  '') (initial_state\<lparr>manualShoppingItems := [lit ''Milk'']\<rparr>)" 0]
    shopping_list_add_remove [of "setNewItemText (lit '' Eggs '') (initial_state\<lparr>manualShoppingItems := [lit ''Milk'']\<rparr>)" 0]
    shopping_list_add_remove [of "initial_state\<lparr>manualShoppingItems := [lit ''Milk'', lit ''Eggs'', lit ''Rice'']\<rparr>" 1]
  by (simp add: setNewItemText_def initial_state_def trim_def lit_def isWhiteSpace_def)

section \<open>Cooking mode\<close>

text \<open>
  C2. Entering cooking mode starts at step 0, and the step index stays between 0 and
  \<open>N - 1\<close>. Neither the Play nor the Exit button writes \<open>currentStep\<close>: after the session
  \<open>staleStepSession\<close> the page is in cooking mode on a recipe of one step, at index 2.
\<close>

theorem cooking_step_survives_exit:
  "map_option instructions (cookingMode (session examplePlatform initial_state staleStepSession))
     = Some (Some [lit ''Toast the bread'']) \<and>
   currentStep (session examplePlatform initial_state staleStepSession) = 2"
  by (simp add: session_def staleStepSession_def initial_state_def example_defs handler_defs
      perform_def renderError_def lit_def)

text \<open>
  C8. In cooking mode on a recipe of \<open>N\<close> steps, at an index \<open>i\<close> of the cooking-mode
  state machine, \<open>0 \<le> i \<le> N - 1\<close>, ``next'' is enabled exactly when \<open>i < N - 1\<close> and moves
  to \<open>i + 1\<close>, ``previous'' is enabled exactly when \<open>i > 0\<close> and moves to \<open>i - 1\<close>,
  ``previous'' at index 0 and ``next'' at index \<open>N - 1\<close> change nothing, and the index
  stays in the range.
\<close>

theorem cooking_buttons_in_range:
  assumes "cookingMode st = Some r" and "instructions r = Some steps"
    and "0 \<le> currentStep st" and "currentStep st \<le> int (length steps) - 1"
  shows "(\<not> nextDisabled steps st \<longleftrightarrow> currentStep st < int (length steps) - 1) \<and>
         (\<not> previousDisabled st \<longleftrightarrow> 0 < currentStep st) \<and>
         clickNext st =
           (if currentStep st < int (length steps) - 1
            then st\<lparr>currentStep := currentStep st + 1, isSpeaking := False\<rparr> else st) \<and>
         clickPrevious st =
           (if 0 < currentStep st
            then st\<lparr>currentStep := currentStep st - 1, isSpeaking := False\<rparr> else st) \<and>
         0 \<le> currentStep (clickNext st) \<and> currentStep (clickNext st) \<le> int (length steps) - 1 \<and>
         0 \<le> currentStep (clickPrevious st) \<and> currentStep (clickPrevious st) \<le> int (length steps) - 1"
  using assms
  by (auto simp: nextDisabled_def previousDisabled_def clickNext_def clickPrevious_def
      nextStep_def previousStep_def)

theorem cooking_buttons_in_range_witness:
  "cookingMode cookingRamen = Some (exampleRecipe ''a'' ''Ramen (by praj)'' [''Boil'', ''Pour'', ''Serve'']) \<and>
   instructions (exampleRecipe ''a'' ''Ramen (by praj)'' [''Boil'', ''Pour'', ''Serve''])
     = Some [lit ''Boil'', lit ''Pour'', lit ''Serve''] \<and>
   0 \<le> currentStep cookingRamen \<and>
   currentStep cookingRamen \<le> int (length [lit ''Boil'', lit ''Pour'', lit ''Serve'']) - 1 \<and>
   \<not> nextDisabled [lit ''Boil'', lit ''Pour'', lit ''Serve''] cookingRamen \<and>
   \<not> previousDisabled cookingRamen \<and>
   currentStep (clickNext cookingRamen) = 2 \<and> currentStep (clickPrevious cookingRamen) = 0 \<and>
   clickNext (clickNext cookingRamen) = clickNext cookingRamen \<and>
   clickPrevious (clickPrevious cookingRamen) = clickPrevious cookingRamen"
proof -
  have c: "cookingMode cookingRamen = Some (exampleRecipe ''a'' ''Ramen (by praj)'' [''Boil'', ''Pour'', ''Serve''])"
    by (simp add: cookingRamen_def)
  have i: "instructions (exampleRecipe ''a'' ''Ramen (by praj)'' [''Boil'', ''Pour'', ''Serve''])
     = Some [lit ''Boil'', lit ''Pour'', lit ''Serve'']"
    by (simp add: exampleRecipe_def)
  have l: "0 \<le> currentStep cookingRamen" by (simp add: cookingRamen_def initial_state_def)
  have u: "currentStep cookingRamen \<le> int (length [lit ''Boil'', lit ''Pour'', lit ''Serve'']) - 1"
    by (simp add: cookingRamen_def initial_state_def)
  have 1: "currentStep cookingRamen = 1" by (simp add: cookingRamen_def)
  note a = cooking_buttons_in_range [OF c i l u]
  have n: "clickNext cookingRamen = cookingRamen\<lparr>currentStep := 2, isSpeaking := False\<rparr>"
    using a 1 by simp
  have p: "clickPrevious cookingRamen = cookingRamen\<lparr>currentStep := 0, isSpeaking := False\<rparr>"
    using a 1 by simp
  have cn: "cookingMode (clickNext cookingRamen) = Some (exampleRecipe ''a'' ''Ramen (by praj)'' [''Boil'', ''Pour'', ''Serve''])"
    using n c by simp
  have cp: "cookingMode (clickPrevious cookingRamen) = Some (exampleRecipe ''a'' ''Ramen (by praj)'' [''Boil'', ''Pour'', ''Serve''])"
    using p c by simp
  have nn: "clickNext (clickNext cookingRamen) = clickNext cookingRamen"
    using cooking_buttons_in_range [OF cn i] n by simp
  have pp: "clickPrevious (clickPrevious cookingRamen) = clickPrevious cookingRamen"
    using cooking_buttons_in_range [OF cp i] p by simp
  show ?thesis using c i l u a 1 n p nn pp by simp
qed

section \<open>The marker in the titles\<close>

text \<open>Both ways of making a title give a marked one.\<close>

lemma includes_suffix_marker: "includesStr (t @ lit '' (by praj)'') (lit ''by praj'')"
proof -
  have "t @ lit '' (by praj)'' = (t @ lit '' ('') @ lit ''by praj'' @ lit '')''"
    by (simp add: lit_def)
  then show ?thesis using includesStr_iff by blast
qed

lemma includes_finalTitle: "includesStr (finalTitle t) (lit ''by praj'')"
  using includes_suffix_marker [of t] by (simp add: finalTitle_def)

lemma marked_generated: "generatedRecipe uuid now d = Inr r \<Longrightarrow> marked r"
  using includes_finalTitle
  by (auto simp: generatedRecipe_def marked_def split: option.splits)

lemma marked_manual: "marked (manualRecipe uuid now dish)"
  using includes_suffix_marker by (simp add: manualRecipe_def marked_def)

text \<open>
  An event changes no title: each recipe of the state after it is a recipe of the state
  before it, with its identifier and title, or is new and marked.
\<close>

lemma dispatch_recipes:
  assumes "r' \<in> recipesOf (dispatch p st a)"
  shows "(\<exists>r \<in> recipesOf st. recipeId r' = recipeId r \<and> title r' = title r) \<or> marked r'"
proof (cases a)
  case (GenerationSettled resp uuid now)
  then show ?thesis
    using assms marked_generated
    by (auto simp: recipesOf_def generateRecipe_settle_def Let_def split: sum.splits)
next
  case (VisualizationSettled resp)
  then show ?thesis
    using assms
    by (auto simp: recipesOf_def visualizeRecipe_settle_def Let_def split: sum.splits option.splits)
next
  case (ClickSaveToPantry uuid now)
  then show ?thesis
    using assms marked_manual
    by (auto simp: recipesOf_def addManualDish_def split: if_splits)
next
  case (ClickSpeak resp)
  have "recipesOf (clickSpeak (atobFn p) (newAudioContext p) resp st) = recipesOf st"
    by (auto simp: recipesOf_def clickSpeak_def speakStep_def ensureAudioContext_def playAudio_def
        Let_def split: option.splits sum.splits)
  then show ?thesis using assms ClickSpeak by auto
qed (use assms in \<open>auto simp: recipesOf_def setPrompt_def generateRecipe_start_def
      visualizeRecipe_start_def enterCookingMode_def saveRecipe_def setSearchQuery_def
      selectRecipe_def deleteRecipe_def setCustomDish_def setNewItemText_def addShoppingItem_def
      removeShoppingItem_def exitCookingMode_def clickPrevious_def clickNext_def
      previousStep_def nextStep_def audioEnded_def startCamera_def capturePhoto_def Let_def
      split: option.splits if_splits\<close>)

lemma perform_recipes:
  assumes "r' \<in> recipesOf (perform p st a)"
  shows "(\<exists>r \<in> recipesOf st. recipeId r' = recipeId r \<and> title r' = title r) \<or> marked r'"
proof (cases "renderError st")
  case None
  then show ?thesis using assms dispatch_recipes [of r' p st a] by (simp add: perform_def)
next
  case (Some e)
  then show ?thesis using assms by (auto simp: perform_def)
qed

lemma perform_allMarked: "allMarked st \<Longrightarrow> allMarked (perform p st a)"
  unfolding allMarked_def
proof
  fix r'
  assume inv: "\<forall>r\<in>recipesOf st. marked r" and "r' \<in> recipesOf (perform p st a)"
  then consider r where "r \<in> recipesOf st" "title r' = title r" | "marked r'"
    using perform_recipes by blast
  then show "marked r'"
  proof cases
    case 1
    then show ?thesis using inv by (simp add: marked_def)
  next
    case 2
    then show ?thesis .
  qed
qed

lemma session_allMarked: "allMarked st \<Longrightarrow> allMarked (session p st evs)"
  unfolding session_def
  by (induction evs arbitrary: st) (simp_all add: perform_allMarked)


text \<open>
  C10. Every recipe the page creates has \<open>by praj\<close> in its title: \<open>generateRecipe\<close>
  appends \<open> (by praj)\<close> to the generated title unless the title contains \<open>by praj\<close>
  already, \<open>addManualDish\<close> appends it to the entered title always, and no event changes
  the title of a recipe, so that a state whose recipes are all marked stays so through
  every session.
\<close>

theorem by_praj_marker:
  "(dataTitle d = Some t \<longrightarrow>
      (\<exists>r. generatedRecipe uuid now d = Inr r \<and>
           title r = (if includesStr t (lit ''by praj'') then t else t @ lit '' (by praj)'') \<and>
           marked r)) \<and>
   title (manualRecipe uuid now dish) = dishTitle dish @ lit '' (by praj)'' \<and>
   marked (manualRecipe uuid now dish) \<and>
   (\<forall>r' \<in> recipesOf (perform p st a).
      (\<exists>r \<in> recipesOf st. recipeId r' = recipeId r \<and> title r' = title r) \<or> marked r') \<and>
   (allMarked st \<longrightarrow> allMarked (session p st evs))"
proof (intro conjI impI ballI)
  assume t: "dataTitle d = Some t"
  then obtain r where r: "generatedRecipe uuid now d = Inr r" and "title r = finalTitle t"
    by (simp add: generatedRecipe_def)
  then show "\<exists>r. generatedRecipe uuid now d = Inr r \<and>
           title r = (if includesStr t (lit ''by praj'') then t else t @ lit '' (by praj)'') \<and>
           marked r"
    using marked_generated [OF r] by (simp add: finalTitle_def)
next
  show "title (manualRecipe uuid now dish) = dishTitle dish @ lit '' (by praj)''"
    by (simp add: manualRecipe_def)
next
  show "marked (manualRecipe uuid now dish)" by (rule marked_manual)
next
  fix r'
  assume "r' \<in> recipesOf (perform p st a)"
  then show "(\<exists>r \<in> recipesOf st. recipeId r' = recipeId r \<and> title r' = title r) \<or> marked r'"
    by (rule perform_recipes)
next
  assume "allMarked st"
  then show "allMarked (session p st evs)" by (rule session_allMarked)
qed

theorem by_praj_marker_witness:
  "dataTitle (fullData ''Ramen'' [''Boil'']) = Some (lit ''Ramen'') \<and>
   map_sum id title (generatedRecipe (lit ''id-1'') 1 (fullData ''Ramen'' [''Boil''])) = Inr (lit ''Ramen (by praj)'') \<and>
   dataTitle (fullData ''Soup by praj'' [''Stir'']) = Some (lit ''Soup by praj'') \<and>
   map_sum id title (generatedRecipe (lit ''id-2'') 2 (fullData ''Soup by praj'' [''Stir''])) = Inr (lit ''Soup by praj'') \<and>
   title (manualRecipe (lit ''id-3'') 3 soupDish) = lit ''Soup (by praj)'' \<and>
   manualRecipe (lit ''id-3'') 3 soupDish
     \<in> recipesOf (perform examplePlatform pantryWithSoup (ClickSaveToPantry (lit ''id-3'') 3)) \<and>
   marked (manualRecipe (lit ''id-3'') 3 soupDish) \<and>
   allMarked pantryWithSoup \<and>
   allMarked (session examplePlatform pantryWithSoup
     [ClickSaveToPantry (lit ''id-3'') 3, ClickCard 0, ClickHeart, ClickPlay, ClickTrash 1])"
proof -
  have m: "allMarked pantryWithSoup"
    by (simp add: allMarked_def recipesOf_def pantryWithSoup_def initial_state_def marked_def
        exampleRecipe_def lit_def)
  have 1: "dataTitle (fullData ''Ramen'' [''Boil'']) = Some (lit ''Ramen'')"
    by (simp add: fullData_def)
  have 2: "dataTitle (fullData ''Soup by praj'' [''Stir'']) = Some (lit ''Soup by praj'')"
    by (simp add: fullData_def)
  have a: "map_sum id title (generatedRecipe (lit ''id-1'') 1 (fullData ''Ramen'' [''Boil''])) = Inr (lit ''Ramen (by praj)'')"
  proof -
    from by_praj_marker [of "fullData ''Ramen'' [''Boil'']" "lit ''Ramen''" "lit ''id-1''" 1,
        THEN conjunct1, rule_format, OF 1]
    obtain r where "generatedRecipe (lit ''id-1'') 1 (fullData ''Ramen'' [''Boil'']) = Inr r"
      and "title r = (if includesStr (lit ''Ramen'') (lit ''by praj'') then lit ''Ramen''
                      else lit ''Ramen'' @ lit '' (by praj)'')"
      by blast
    then show ?thesis by (simp add: lit_def)
  qed
  have b: "map_sum id title (generatedRecipe (lit ''id-2'') 2 (fullData ''Soup by praj'' [''Stir''])) = Inr (lit ''Soup by praj'')"
  proof -
    from by_praj_marker [of "fullData ''Soup by praj'' [''Stir'']" "lit ''Soup by praj''" "lit ''id-2''" 2,
        THEN conjunct1, rule_format, OF 2]
    obtain r where "generatedRecipe (lit ''id-2'') 2 (fullData ''Soup by praj'' [''Stir'']) = Inr r"
      and "title r = (if includesStr (lit ''Soup by praj'') (lit ''by praj'') then lit ''Soup by praj''
                      else lit ''Soup by praj'' @ lit '' (by praj)'')"
      by blast
    then show ?thesis by (simp add: lit_def)
  qed
  have c: "title (manualRecipe (lit ''id-3'') 3 soupDish) = lit ''Soup (by praj)''"
    using by_praj_marker [of _ _ "lit ''id-3''" 3 soupDish, THEN conjunct2, THEN conjunct1]
    by (simp add: soupDish_def lit_def)
  have d: "manualRecipe (lit ''id-3'') 3 soupDish
     \<in> recipesOf (perform examplePlatform pantryWithSoup (ClickSaveToPantry (lit ''id-3'') 3))"
    by (simp add: recipesOf_def pantryWithSoup_def initial_state_def addManualDish_def
        perform_def renderError_def soupDish_def truthy_def lit_def)
  have e: "marked (manualRecipe (lit ''id-3'') 3 soupDish)"
    using by_praj_marker [of _ _ "lit ''id-3''" 3 soupDish, THEN conjunct2, THEN conjunct2, THEN conjunct1] .
  have f: "allMarked (session examplePlatform pantryWithSoup
     [ClickSaveToPantry (lit ''id-3'') 3, ClickCard 0, ClickHeart, ClickPlay, ClickTrash 1])"
    using by_praj_marker [of _ _ _ _ _ examplePlatform pantryWithSoup _
        "[ClickSaveToPantry (lit ''id-3'') 3, ClickCard 0, ClickHeart, ClickPlay, ClickTrash 1]",
        THEN conjunct2, THEN conjunct2, THEN conjunct2, THEN conjunct2, rule_format, OF m] .
  show ?thesis using m 1 2 a b c d e f by simp
qed

section \<open>Recipe generation\<close>

text \<open>
  What \<open>generateRecipe\<close> does: when the request fails, the response text does not parse,
  or the parsed response has no title, it shows the alert ``Error generating recipe.'',
  clears the loading flag and leaves the current recipe unset; when the parsed response
  has a title, it makes a recipe current without looking at any other field.
\<close>

lemma generateRecipe_cases:
  "(resp = Inl e \<or> (resp = Inr text \<and> parse (responseText text) = Inl e) \<or>
    (resp = Inr text \<and> parse (responseText text) = Inr d \<and> dataTitle d = None) \<longrightarrow>
      generateRecipe parse uuid now resp st =
        st\<lparr>isGenerating := False, currentRecipe := None, isCameraOpen := False,
           alerts := alerts st @ [lit ''Error generating recipe.'']\<rparr>) \<and>
   (resp = Inr text \<and> parse (responseText text) = Inr d \<and> dataTitle d = Some t \<longrightarrow>
      generateRecipe parse uuid now resp st =
        st\<lparr>isGenerating := False, isCameraOpen := False, capturedImage := None,
           currentRecipe :=
             Some \<lparr>recipeId = uuid, title = finalTitle t, description = dataDescription d,
                   ingredients = dataIngredients d, instructions = dataInstructions d,
                   prepTime = dataPrepTime d, servings = dataServings d,
                   nutrition = dataNutrition d, imageUrl = dataImageUrl d, createdAt = now\<rparr>\<rparr>)"
  by (auto simp: generateRecipe_def generateRecipe_start_def generateRecipe_settle_def
      generatedRecipe_def)

text \<open>
  C3. A response that misses a required field gives the generation error and no recipe.
  The response \<open>{"title":"Tea"}\<close> misses every required field but the title:
  \<open>generateRecipe\<close> shows no alert and makes a recipe of it current that has neither
  nutrition nor ingredients nor instructions, and the render of the kitchen, which reads
  them, throws.
\<close>

text \<open>
  The values that the model of \<open>JSON.parse\<close> reads from the example responses: the one of
  three steps has every field of the schema, the last has the title only.
\<close>

lemma example_texts_parsed:
  "JSON_parse ramenText =
     Inr (JObject
       [(lit ''title'', JString (lit ''Ramen'')),
        (lit ''description'', JString (lit ''Crafted by praj'')),
        (lit ''prepTime'', JString (lit ''20 min'')),
        (lit ''servings'', JString (lit ''2'')),
        (lit ''nutrition'', JObject
           [(lit ''calories'', JString (lit ''400'')), (lit ''protein'', JString (lit ''12g'')),
            (lit ''carbs'', JString (lit ''60g'')), (lit ''fat'', JString (lit ''9g''))]),
        (lit ''ingredients'', JArray [JString (lit ''salt'')]),
        (lit ''instructions'', JArray [JString (lit ''Boil''), JString (lit ''Pour''), JString (lit ''Serve'')])])"
  "JSON_parse teaText = Inr (JObject [(lit ''title'', JString (lit ''Tea''))])"
  by code_simp+

theorem generateRecipe_accepts_missing_fields:
  "JSON_parse (responseText (Some teaText)) = Inr (JObject [(lit ''title'', JString (lit ''Tea''))]) \<and>
   exampleParse (responseText (Some teaText)) = Inr (noData\<lparr>dataTitle := Some (lit ''Tea'')\<rparr>) \<and>
   generateRecipe exampleParse (lit ''id-1'') 1 (Inr (Some teaText)) (setPrompt (lit ''tea'') initial_state)
     = session examplePlatform initial_state teaSession \<and>
   currentRecipe (session examplePlatform initial_state teaSession)
     = Some \<lparr>recipeId = lit ''id-1'', title = lit ''Tea (by praj)'', description = None,
             ingredients = None, instructions = None, prepTime = None, servings = None,
             nutrition = None, imageUrl = None, createdAt = 1\<rparr> \<and>
   alerts (session examplePlatform initial_state teaSession) = [] \<and>
   renderError (session examplePlatform initial_state teaSession) = Some TypeError"
proof (rule conjI)
  have "responseText (Some teaText) = teaText"
    by (simp add: responseText_def orElse_def truthy_def teaText_def lit_def)
  then show "JSON_parse (responseText (Some teaText)) = Inr (JObject [(lit ''title'', JString (lit ''Tea''))])"
    by (simp add: example_texts_parsed)
qed (simp add: generateRecipe_def session_def teaSession_def initial_state_def example_defs
      handler_defs perform_def renderError_def lit_def)

section \<open>Audio decoding\<close>

text \<open>The 16-bit view has one element for every two bytes, low byte first.\<close>

lemma length_int16Elements: "length (int16Elements bytes) = length bytes div 2"
  by (induction bytes rule: int16Elements.induct) simp_all

lemma nth_int16Elements:
  "i < length bytes div 2 \<Longrightarrow>
   int16Elements bytes ! i = word_cat (bytes ! (2 * i + 1)) (bytes ! (2 * i))"
proof (induction bytes arbitrary: i rule: int16Elements.induct)
  case (1 lo hi rest)
  then show ?case by (cases i) simp_all
qed simp_all

text \<open>The loop writes the samples from its start index on and nothing else.\<close>

lemma length_fillChannel: "length (fillChannel src i dst) = length dst"
  by (induction src i dst rule: fillChannel.induct) (simp add: fillChannel.simps)

lemma nth_fillChannel:
  "j < length dst \<Longrightarrow>
   fillChannel src i dst ! j =
     (if i \<le> j \<and> j < length src then real_of_int (sint (src ! j)) / 32768 else dst ! j)"
proof (induction src i dst rule: fillChannel.induct)
  case (1 src i dst)
  show ?case
  proof (cases "i < length src")
    case True
    then have "fillChannel src i dst ! j
        = fillChannel src (i + 1) (dst[i := real_of_int (sint (src ! i)) / 32768]) ! j"
      by (subst fillChannel.simps) simp
    also have "\<dots> = (if i + 1 \<le> j \<and> j < length src then real_of_int (sint (src ! j)) / 32768
                      else dst[i := real_of_int (sint (src ! i)) / 32768] ! j)"
      using "1.IH" [OF True] "1.prems" by simp
    finally show ?thesis using "1.prems" True
      by (cases "j = i") (simp_all add: nth_list_update)
  next
    case False
    then show ?thesis by (subst fillChannel.simps) simp
  qed
qed

text \<open>The element of the view, read as a signed integer, is the PCM sample of the two bytes.\<close>

lemma uint_word_cat_bytes:
  "uint (word_cat (hi :: 8 word) (lo :: 8 word) :: 16 word) = uint lo + 256 * uint hi"
proof -
  have lo: "0 \<le> uint lo" "uint lo < 256" using uint_lt2p [of lo] by simp_all
  have hi: "0 \<le> uint hi" "uint hi < 256" using uint_lt2p [of hi] by simp_all
  have "uint (word_cat hi lo :: 16 word) = take_bit 16 (concat_bit 8 (uint lo) (uint hi))"
    by (simp add: word_cat_eq' uint_word_of_int_eq)
  also have "concat_bit 8 (uint lo) (uint hi) = uint lo + 256 * uint hi"
    using lo by (simp add: concat_bit_eq take_bit_int_eq_self push_bit_eq_mult)
  also have "take_bit 16 (uint lo + 256 * uint hi) = uint lo + 256 * uint hi"
    using lo hi by (intro take_bit_int_eq_self) simp_all
  finally show ?thesis .
qed

lemma sint_16: "sint (w :: 16 word) = (if uint w < 32768 then uint w else uint w - 65536)"
proof -
  have b: "0 \<le> uint w" "uint w < 65536" using uint_lt2p [of w] by simp_all
  have s: "sint w = (uint w + 32768) mod 65536 - 32768"
    by (simp add: sint_uint signed_take_bit_eq_take_bit_shift take_bit_eq_mod)
  show ?thesis
  proof (cases "uint w < 32768")
    case True
    then have "(uint w + 32768) mod 65536 = uint w + 32768"
      using b by (intro mod_pos_pos_trivial) simp_all
    then show ?thesis using s True by simp
  next
    case False
    have e: "uint w + 32768 = uint w - 32768 + 1 * 65536" by simp
    have "(uint w + 32768) mod 65536 = (uint w - 32768) mod 65536"
      by (subst e) (rule mod_mult_self1)
    also have "\<dots> = uint w - 32768"
      using b False by (intro mod_pos_pos_trivial) simp_all
    finally show ?thesis using s False by simp
  qed
qed

lemma sint_word_cat_bytes: "sint (word_cat hi lo :: 16 word) = pcmSample lo (hi :: 8 word)"
  by (simp add: sint_16 uint_word_cat_bytes pcmSample_def Let_def)

lemma sample_bounds:
  "- 1 \<le> real_of_int (sint (w :: 16 word)) / 32768 \<and> real_of_int (sint w) / 32768 \<le> 1"
proof -
  have "- 32768 \<le> sint w" using sint_ge [of w] by simp
  moreover have "sint w < 32768" using sint_lt [of w] by simp
  ultimately show ?thesis by (simp del: of_int_sint)
qed


text \<open>
  C7. For a byte stream of signed 16-bit little-endian mono samples, that is, of even
  length, and a context that grants the mono buffer asked for, \<open>decodeAudioData\<close> returns
  a buffer of one channel at 24000 Hz with one sample for every two bytes; sample \<open>i\<close> is
  the integer sample of bytes \<open>2i\<close> and \<open>2i + 1\<close> divided by 32768, and lies between -1
  and 1.
\<close>

theorem decodeAudioData_samples:
  assumes "even (length data)"
    and "createBuffer ctx 1 (length data div 2) 24000 = Inr buffer"
    and "monoBuffer (length data div 2) 24000 buffer"
  shows "\<exists>decoded samples.
           decodeAudioData data ctx = Inr decoded \<and>
           numberOfChannels decoded = 1 \<and> sampleRate decoded = 24000 \<and>
           channels decoded = [samples] \<and> length samples = length data div 2 \<and>
           (\<forall>i < length data div 2.
              samples ! i = real_of_int (pcmSample (data ! (2 * i)) (data ! (2 * i + 1))) / 32768 \<and>
              - 1 \<le> samples ! i \<and> samples ! i \<le> 1)"
proof -
  let ?n = "length data div 2"
  let ?src = "int16Elements data"
  from assms(3) obtain channel where ch: "channels buffer = [channel]" and len: "length channel = ?n"
    and one: "numberOfChannels buffer = 1" and rate: "sampleRate buffer = 24000"
    by (cases "channels buffer") (auto simp: monoBuffer_def)
  let ?samples = "fillChannel ?src 0 channel"
  let ?decoded = "buffer\<lparr>channels := [?samples]\<rparr>"
  have src: "int16Array data = Inr ?src" using assms(1) by (simp add: int16Array_def)
  have dec: "decodeAudioData data ctx = Inr ?decoded"
    using src assms(2) ch by (simp add: decodeAudioData_def length_int16Elements)
  have nth: "?samples ! i = real_of_int (pcmSample (data ! (2 * i)) (data ! (2 * i + 1))) / 32768 \<and>
             - 1 \<le> ?samples ! i \<and> ?samples ! i \<le> 1" if "i < ?n" for i
  proof -
    have "?samples ! i = real_of_int (sint (?src ! i)) / 32768"
      using that len by (simp add: nth_fillChannel length_int16Elements del: of_int_sint)
    moreover have "sint (?src ! i) = pcmSample (data ! (2 * i)) (data ! (2 * i + 1))"
      using that by (simp add: nth_int16Elements sint_word_cat_bytes)
    ultimately show ?thesis using sample_bounds [of "?src ! i"] by (simp del: of_int_sint)
  qed
  have "numberOfChannels ?decoded = 1" "sampleRate ?decoded = 24000"
    "channels ?decoded = [?samples]" "length ?samples = ?n"
    using one rate len by (simp_all add: length_fillChannel)
  with dec nth show ?thesis by blast
qed

theorem decodeAudioData_samples_witness:
  "even (length pcmBytes) \<and>
   createBuffer exampleContext 1 (length pcmBytes div 2) 24000
     = Inr \<lparr>numberOfChannels = 1, sampleRate = 24000, channels = [[0, 0, 0]]\<rparr> \<and>
   monoBuffer (length pcmBytes div 2) 24000
     \<lparr>numberOfChannels = 1, sampleRate = 24000, channels = [[0, 0, 0]]\<rparr> \<and>
   decodeAudioData pcmBytes exampleContext
     = Inr \<lparr>numberOfChannels = 1, sampleRate = 24000, channels = [[- 1, 32767 / 32768, 1 / 2]]\<rparr>"
proof -
  let ?b = "\<lparr>numberOfChannels = 1, sampleRate = 24000, channels = [[0, 0, 0 :: real]]\<rparr>"
  have e: "even (length pcmBytes)" by (simp add: pcmBytes_def)
  have c: "createBuffer exampleContext 1 (length pcmBytes div 2) 24000 = Inr ?b"
    by (simp add: exampleContext_def pcmBytes_def numeral_3_eq_3)
  have m: "monoBuffer (length pcmBytes div 2) 24000 ?b"
    by (simp add: monoBuffer_def pcmBytes_def)
  from decodeAudioData_samples [OF e c m] obtain decoded samples where
    d: "decodeAudioData pcmBytes exampleContext = Inr decoded"
    and f: "numberOfChannels decoded = 1" "sampleRate decoded = 24000" "channels decoded = [samples]"
    and l: "length samples = length pcmBytes div 2"
    and s: "\<forall>i < length pcmBytes div 2.
      samples ! i = real_of_int (pcmSample (pcmBytes ! (2 * i)) (pcmBytes ! (2 * i + 1))) / 32768 \<and>
      - 1 \<le> samples ! i \<and> samples ! i \<le> 1"
    by blast
  have l3: "length samples = 3" using l by (simp add: pcmBytes_def)
  have "samples ! 0 = - 1" "samples ! 1 = 32767 / 32768" "samples ! 2 = 1 / 2"
    using s [rule_format, of 0] s [rule_format, of 1] s [rule_format, of 2]
    by (simp_all add: pcmBytes_def pcmSample_def)
  then have "samples = [- 1, 32767 / 32768, 1 / 2]"
    using l3 by (intro nth_equalityI) (auto simp: less_Suc_eq numeral_3_eq_3 numeral_2_eq_2)
  then have "decoded = \<lparr>numberOfChannels = 1, sampleRate = 24000, channels = [[- 1, 32767 / 32768, 1 / 2]]\<rparr>"
    using f by (cases decoded) simp
  then show ?thesis using e c m d by simp
qed

section \<open>Narration\<close>

text \<open>
  C5. While the speaking flag is set, a narration request changes nothing: \<open>speakStep\<close>,
  and the Volume button that calls it, return the state they were given, with its speech
  requests, its started audio sources and every other field, whatever the speech service
  would have answered.
\<close>

theorem speakStep_rejected_while_speaking:
  "isSpeaking st \<longrightarrow>
     speakStep atob newContext resp text st = st \<and> clickSpeak atob newContext resp st = st"
  by (simp add: speakStep_def clickSpeak_def split: option.splits)

text \<open>Without the flag, the request is sent.\<close>

lemma speakStep_requests_when_idle:
  "\<not> isSpeaking st \<Longrightarrow> audioContextRef st = Some ctx \<Longrightarrow>
   speechRequests (speakStep atob newContext resp text st) = speechRequests st @ [text]"
  by (auto simp: speakStep_def ensureAudioContext_def playAudio_def Let_def
      split: sum.splits option.splits)

theorem speakStep_rejected_while_speaking_witness:
  "isSpeaking narratingRamen \<and>
   speakStep exampleAtob (Inr exampleContext) (Inr (Some (lit ''AIA=''))) (lit ''Pour'') narratingRamen
     = narratingRamen \<and>
   speechRequests (clickSpeak exampleAtob (Inr exampleContext) (Inr (Some (lit ''AIA=''))) narratingRamen)
     = [lit ''Pour''] \<and>
   speechRequests (speakStep exampleAtob (Inr exampleContext) (Inr (Some (lit ''AIA=''))) (lit ''Pour'')
       (audioEnded narratingRamen))
     = [lit ''Pour'', lit ''Pour'']"
proof -
  have i: "isSpeaking narratingRamen" by (simp add: narratingRamen_def)
  have r: "speechRequests narratingRamen = [lit ''Pour'']" by (simp add: narratingRamen_def)
  have n: "\<not> isSpeaking (audioEnded narratingRamen)" by (simp add: audioEnded_def)
  have c: "audioContextRef (audioEnded narratingRamen) = Some exampleContext"
    by (simp add: audioEnded_def narratingRamen_def)
  have "speechRequests (speakStep exampleAtob (Inr exampleContext) (Inr (Some (lit ''AIA=''))) (lit ''Pour'')
       (audioEnded narratingRamen)) = speechRequests (audioEnded narratingRamen) @ [lit ''Pour'']"
    using n c by (rule speakStep_requests_when_idle)
  then show ?thesis
    using i r speakStep_rejected_while_speaking [of narratingRamen exampleAtob "Inr exampleContext"
        "Inr (Some (lit ''AIA=''))" "lit ''Pour''"]
    by (simp add: audioEnded_def)
qed

section \<open>JSON: what is written is read back\<close>

subsection \<open>Strings\<close>








lemma parseChars_plain:
  "c \<noteq> 0x22 \<Longrightarrow> c \<noteq> 0x5C \<Longrightarrow> \<not> c < 0x20 \<Longrightarrow> parseChars (c # t) = consChar c (parseChars t)"
  by simp




subsection \<open>Numbers\<close>










lemma hd_append_nonempty: "xs \<noteq> [] \<Longrightarrow> hd (xs @ ys) = hd xs"
  by simp









subsection \<open>Values\<close>


lemma delimited_simps [simp]:
  "delimited []" "delimited (0x2C # r)" "delimited (0x5D # r)" "delimited (0x7D # r)"
  by (simp_all add: delimited_def)







lemma skipSpace_delimiter [simp]:
  "skipSpace (0x2C # r) = 0x2C # r" "skipSpace (0x5D # r) = 0x5D # r"
  "skipSpace (0x7D # r) = 0x7D # r" "skipSpace (0x3A # r) = 0x3A # r"
  "skipSpace (0x22 # r) = 0x22 # r" "skipSpace [] = []"
  by (simp_all add: skipSpace_def isJsonSpace_def)



















section \<open>Persistence\<close>

subsection \<open>The collections as JSON values\<close>



lemma case_option_same: "(case x of None \<Rightarrow> None | Some y \<Rightarrow> Some y) = x"
  by (cases x) simp_all


















subsection \<open>The storage\<close>






lemma setItem_accepted:
  "\<forall>m k v. accepts store m k v \<Longrightarrow>
   setItem k v store = Inr (store\<lparr>entries := (entries store)(k \<mapsto> v)\<rparr>)"
  by (simp add: setItem_def)



subsection \<open>Saving and loading\<close>







end
